theory Spec2Isabelle
  imports Complex_Main "HOL-Library.Monad_Syntax"
begin

section \<open>The dashboard script \<^verbatim>\<open>app.py\<close>: fetching and normalising two sensor feeds\<close>

text \<open>
  The script fetches two feeds from Adafruit IO (\<^verbatim>\<open>get_feed_data\<close>), turns each decoded JSON
  body into a time-sorted table (\<^verbatim>\<open>process_data\<close>) and renders both
  (\<^verbatim>\<open>create_dashboard\<close>). The model below follows the three functions line by line.
  Values are the objects Python's \<^verbatim>\<open>json\<close> decoder produces; every exception the script can
  meet is a value of \<open>py_error\<close>, and a function that may raise returns \<open>py_error + 'a\<close>.
  Calls to Streamlit that show something (\<^verbatim>\<open>st.error\<close>, \<^verbatim>\<open>st.warning\<close>) append to a list of
  messages that is passed through.
\<close>

subsection \<open>Decoded JSON, floats and exceptions\<close>

text \<open>
  A Python float is kept as the number its literal denotes: \<open>FNum r\<close> is the exact rational
  read from the text, which CPython then rounds to the nearest binary64 (no statement below
  depends on that rounding); \<open>FInf neg\<close> is the infinity of the given sign and \<open>FNan\<close> is
  not-a-number.
\<close>

datatype pyfloat = FNan | FInf bool | FNum rat

text \<open>
  \<open>JObj\<close> holds the items of a decoded \<^verbatim>\<open>dict\<close> in insertion order (keys are looked up with
  \<open>map_of\<close>).
\<close>

datatype json =
    JNull
  | JBool bool
  | JInt int
  | JReal pyfloat
  | JStr string
  | JArr "json list"
  | JObj "(string \<times> json) list"

text \<open>
  The exceptions the script meets: the built-in ones, and
  \<^verbatim>\<open>requests.exceptions.RequestException\<close> with the subclass raised and the text that
  \<^verbatim>\<open>str(e)\<close> gives. \<^verbatim>\<open>RecursionError\<close> and \<^verbatim>\<open>UnicodeEncodeError\<close> are built-in exceptions
  that the calls of \<^verbatim>\<open>get_feed_data\<close> can raise besides those of requests.
\<close>

datatype req_kind = ConnectionError | HTTPError | JSONDecodeError

datatype py_error =
    TypeError
  | KeyError
  | AttributeError
  | ValueError
  | OverflowError
  | RecursionError
  | UnicodeEncodeError
  | RequestException req_kind string

text \<open>
  What the page shows: \<^verbatim>\<open>st.error(text)\<close>, \<^verbatim>\<open>st.warning(text)\<close>, and the warning of
  \<^verbatim>\<open>process_data\<close>, \<^verbatim>\<open>st.warning(f"Skipping invalid entry: {entry} ... {e}")\<close>, kept as the
  entry and the exception it names.
\<close>

datatype ui_msg =
    StError string
  | StWarning string
  | StWarningSkipping json py_error

type_synonym ui = "ui_msg list"

subsection \<open>Characters and digits\<close>

definition is_digit :: "char \<Rightarrow> bool" where
  "is_digit c = (48 \<le> (of_char c :: nat) \<and> (of_char c :: nat) \<le> 57)"

definition digit_val :: "char \<Rightarrow> nat" where
  "digit_val c = (of_char c :: nat) - 48"

definition nat_of_digits :: "nat list \<Rightarrow> nat" where
  "nat_of_digits ds = foldl (\<lambda>a d. 10 * a + d) 0 ds"

text \<open>The ASCII whitespace that \<^verbatim>\<open>float\<close> strips from both ends of a \<^verbatim>\<open>str\<close>.\<close>

definition is_space :: "char \<Rightarrow> bool" where
  "is_space c = ((of_char c :: nat) = 32 \<or> (9 \<le> (of_char c :: nat) \<and> (of_char c :: nat) \<le> 13))"

definition strip :: "string \<Rightarrow> string" where
  "strip s = rev (dropWhile is_space (rev (dropWhile is_space s)))"

definition lower :: "char \<Rightarrow> char" where
  "lower c = (if 65 \<le> (of_char c :: nat) \<and> (of_char c :: nat) \<le> 90
              then char_of ((of_char c :: nat) + 32) else c)"

subsection \<open>\<^verbatim>\<open>float(x)\<close>\<close>

text \<open>
  The grammar of the Python language reference for \<^verbatim>\<open>float(str)\<close>, on ASCII text:
  \<^verbatim>\<open>
  digitpart     ::= digit (["_"] digit)*
  number        ::= [digitpart] "." digitpart | digitpart ["."]
  exponent      ::= ("e" | "E") [sign] digitpart
  floatnumber   ::= number [exponent]
  absfloatvalue ::= floatnumber | "inf" | "infinity" | "nan"     (any letter case)
  floatvalue    ::= [sign] absfloatvalue
  \<close>
  with leading and trailing whitespace removed first.
\<close>

fun more_digits :: "string \<Rightarrow> nat list \<times> string" where
  "more_digits [] = ([], [])"
| "more_digits [c] = (if is_digit c then ([digit_val c], []) else ([], [c]))"
| "more_digits (c # d # cs) =
     (if is_digit c then
        (case more_digits (d # cs) of (ds, r) \<Rightarrow> (digit_val c # ds, r))
      else if c = CHR ''_'' \<and> is_digit d then
        (case more_digits cs of (ds, r) \<Rightarrow> (digit_val d # ds, r))
      else ([], c # d # cs))"

definition digitpart :: "string \<Rightarrow> (nat list \<times> string) option" where
  "digitpart s =
     (case s of
        [] \<Rightarrow> None
      | c # cs \<Rightarrow> if is_digit c then Some (more_digits s) else None)"

definition sign :: "string \<Rightarrow> bool \<times> string" where
  "sign s =
     (case s of
        [] \<Rightarrow> (False, [])
      | c # cs \<Rightarrow> if c = CHR ''-'' then (True, cs)
                  else if c = CHR ''+'' then (False, cs)
                  else (False, s))"

definition number :: "string \<Rightarrow> ((nat list \<times> nat list) \<times> string) option" where
  "number s =
     (case digitpart s of
        Some (ip, r) \<Rightarrow>
          (case r of
             [] \<Rightarrow> Some ((ip, []), [])
           | c # r' \<Rightarrow>
               if c = CHR ''.'' then
                 (case digitpart r' of
                    Some (fp, r'') \<Rightarrow> Some ((ip, fp), r'')
                  | None \<Rightarrow> Some ((ip, []), r'))
               else Some ((ip, []), r))
      | None \<Rightarrow>
          (case s of
             [] \<Rightarrow> None
           | c # r' \<Rightarrow>
               if c = CHR ''.'' then
                 (case digitpart r' of
                    Some (fp, r'') \<Rightarrow> Some (([], fp), r'')
                  | None \<Rightarrow> None)
               else None))"

definition exponent :: "string \<Rightarrow> int option" where
  "exponent s =
     (case s of
        [] \<Rightarrow> Some 0
      | c # r \<Rightarrow>
          if c = CHR ''e'' \<or> c = CHR ''E'' then
            (case sign r of
               (neg, r') \<Rightarrow>
                 (case digitpart r' of
                    Some (ds, r'') \<Rightarrow>
                      if r'' = [] then
                        Some (if neg then - int (nat_of_digits ds) else int (nat_of_digits ds))
                      else None
                  | None \<Rightarrow> None))
          else None)"

definition scale10 :: "nat \<Rightarrow> int \<Rightarrow> rat" where
  "scale10 m e = (if 0 \<le> e then of_nat m * 10 ^ nat e else of_nat m / 10 ^ nat (- e))"

definition floatnumber :: "string \<Rightarrow> rat option" where
  "floatnumber s =
     (case number s of
        None \<Rightarrow> None
      | Some ((ip, fp), r) \<Rightarrow>
          (case exponent r of
             None \<Rightarrow> None
           | Some e \<Rightarrow> Some (scale10 (nat_of_digits (ip @ fp)) (e - int (length fp)))))"

definition absfloatvalue :: "bool \<Rightarrow> string \<Rightarrow> pyfloat option" where
  "absfloatvalue neg s =
     (if map lower s = ''inf'' \<or> map lower s = ''infinity'' then Some (FInf neg)
      else if map lower s = ''nan'' then Some FNan
      else (case floatnumber s of
              None \<Rightarrow> None
            | Some r \<Rightarrow> Some (FNum (if neg then - r else r))))"

definition float_of_str :: "string \<Rightarrow> pyfloat option" where
  "float_of_str s = (case sign (strip s) of (neg, r) \<Rightarrow> absfloatvalue neg r)"

text \<open>
  \<^verbatim>\<open>float(x)\<close> on a decoded JSON value: a \<^verbatim>\<open>str\<close> is parsed (\<^verbatim>\<open>ValueError\<close> when it
  is no float literal), a number or \<^verbatim>\<open>bool\<close> is converted (\<^verbatim>\<open>OverflowError\<close> for an
  \<^verbatim>\<open>int\<close> that rounds beyond the largest binary64), and \<^verbatim>\<open>None\<close>, a \<^verbatim>\<open>list\<close> and a
  \<^verbatim>\<open>dict\<close> raise \<^verbatim>\<open>TypeError\<close>.
\<close>

fun py_float :: "json \<Rightarrow> py_error + pyfloat" where
  "py_float (JStr s) = (case float_of_str s of None \<Rightarrow> Inl ValueError | Some f \<Rightarrow> Inr f)"
| "py_float (JReal f) = Inr f"
| "py_float (JInt i) =
     (if \<bar>i\<bar> < 2 ^ 1024 - 2 ^ 970 then Inr (FNum (of_int i)) else Inl OverflowError)"
| "py_float (JBool b) = Inr (FNum (if b then 1 else 0))"
| "py_float JNull = Inl TypeError"
| "py_float (JArr xs) = Inl TypeError"
| "py_float (JObj kvs) = Inl TypeError"

subsection \<open>\<^verbatim>\<open>datetime.datetime.fromisoformat\<close>\<close>

text \<open>
  A \<^verbatim>\<open>datetime\<close> object. \<open>tzinfo\<close> is \<open>None\<close> for a naive datetime and otherwise the
  UTC offset of its fixed-offset \<^verbatim>\<open>timezone\<close>, in microseconds.
\<close>

record datetime =
  year :: nat
  month :: nat
  day :: nat
  hour :: nat
  minute :: nat
  second :: nat
  microsecond :: nat
  tzinfo :: "int option"

text \<open>
  The format that every CPython from 3.7 on accepts (later versions accept more):
  \<^verbatim>\<open>YYYY-MM-DD[*HH[:MM[:SS[.fff[fff]]]][+HH:MM[:SS[.ffffff]]]]\<close>, where \<^verbatim>\<open>*\<close> is any one
  character and the sign of the offset is \<^verbatim>\<open>+\<close> or \<^verbatim>\<open>-\<close>. The fields are then checked as
  the \<^verbatim>\<open>datetime\<close> and \<^verbatim>\<open>timezone\<close> constructors check them; every failure is
  \<^verbatim>\<open>ValueError\<close>.
\<close>

definition digits :: "nat \<Rightarrow> string \<Rightarrow> (nat \<times> string) option" where
  "digits n s =
     (if n \<le> length s \<and> list_all is_digit (take n s)
      then Some (nat_of_digits (map digit_val (take n s)), drop n s)
      else None)"

definition expect :: "char \<Rightarrow> string \<Rightarrow> string option" where
  "expect c s = (case s of [] \<Rightarrow> None | x # r \<Rightarrow> if x = c then Some r else None)"

definition parse_fraction :: "string \<Rightarrow> nat option" where
  "parse_fraction s =
     (if length s = 3 then map_option (\<lambda>(f, r). f * 1000) (digits 3 s)
      else if length s = 6 then map_option fst (digits 6 s)
      else None)"

definition parse_hh_mm_ss_ff :: "string \<Rightarrow> (nat \<times> nat \<times> nat \<times> nat) option" where
  "parse_hh_mm_ss_ff s = do {
     (h, r1) \<leftarrow> digits 2 s;
     if r1 = [] then Some (h, 0, 0, 0) else do {
       r1' \<leftarrow> expect CHR '':'' r1;
       (m, r2) \<leftarrow> digits 2 r1';
       if r2 = [] then Some (h, m, 0, 0) else do {
         r2' \<leftarrow> expect CHR '':'' r2;
         (sec, r3) \<leftarrow> digits 2 r2';
         if r3 = [] then Some (h, m, sec, 0) else do {
           r3' \<leftarrow> expect CHR ''.'' r3;
           us \<leftarrow> parse_fraction r3';
           Some (h, m, sec, us)
         }
       }
     }
   }"

definition is_sign :: "char \<Rightarrow> bool" where
  "is_sign c = (c = CHR ''+'' \<or> c = CHR ''-'')"

definition parse_tz :: "string \<Rightarrow> int option option" where
  "parse_tz rest =
     (case rest of
        [] \<Rightarrow> Some None
      | sg # tzstr \<Rightarrow>
          if length tzstr = 5 \<or> length tzstr = 8 \<or> length tzstr = 15 then do {
            (th, tm, ts, tus) \<leftarrow> parse_hh_mm_ss_ff tzstr;
            let off = (if sg = CHR ''-'' then - 1 else 1)
                        * ((int th * 3600 + int tm * 60 + int ts) * 1000000 + int tus);
            if \<bar>off\<bar> < 86400 * 1000000 then Some (Some off) else None
          } else None)"

definition parse_isoformat_time ::
    "string \<Rightarrow> (nat \<times> nat \<times> nat \<times> nat \<times> int option) option" where
  "parse_isoformat_time tstr = do {
     (h, m, sec, us) \<leftarrow> parse_hh_mm_ss_ff (takeWhile (\<lambda>c. \<not> is_sign c) tstr);
     tz \<leftarrow> parse_tz (dropWhile (\<lambda>c. \<not> is_sign c) tstr);
     Some (h, m, sec, us, tz)
   }"

definition is_leap :: "nat \<Rightarrow> bool" where
  "is_leap y = (y mod 4 = 0 \<and> (y mod 100 \<noteq> 0 \<or> y mod 400 = 0))"

definition days_in_month :: "nat \<Rightarrow> nat \<Rightarrow> nat" where
  "days_in_month y m =
     (if m = 2 then (if is_leap y then 29 else 28)
      else if m = 4 \<or> m = 6 \<or> m = 9 \<or> m = 11 then 30 else 31)"

definition valid_fields :: "nat \<Rightarrow> nat \<Rightarrow> nat \<Rightarrow> nat \<Rightarrow> nat \<Rightarrow> nat \<Rightarrow> bool" where
  "valid_fields y mo d h mi sec =
     (1 \<le> y \<and> y \<le> 9999 \<and> 1 \<le> mo \<and> mo \<le> 12 \<and> 1 \<le> d \<and> d \<le> days_in_month y mo
      \<and> h \<le> 23 \<and> mi \<le> 59 \<and> sec \<le> 59)"

definition parse_isoformat :: "string \<Rightarrow> datetime option" where
  "parse_isoformat s = do {
     (y, r1) \<leftarrow> digits 4 s;
     r2 \<leftarrow> expect CHR ''-'' r1;
     (mo, r3) \<leftarrow> digits 2 r2;
     r4 \<leftarrow> expect CHR ''-'' r3;
     (d, r5) \<leftarrow> digits 2 r4;
     (h, mi, sec, us, tz) \<leftarrow>
        (case r5 of [] \<Rightarrow> Some (0, 0, 0, 0, None) | sep # tstr \<Rightarrow> parse_isoformat_time tstr);
     if valid_fields y mo d h mi sec
     then Some \<lparr>year = y, month = mo, day = d, hour = h, minute = mi, second = sec,
                 microsecond = us, tzinfo = tz\<rparr>
     else None
   }"

definition fromisoformat :: "string \<Rightarrow> py_error + datetime" where
  "fromisoformat s = (case parse_isoformat s of None \<Rightarrow> Inl ValueError | Some dt \<Rightarrow> Inr dt)"

text \<open>
  The instant a datetime denotes, in microseconds since 0001-01-01T00:00:00 UTC (the
  proleptic Gregorian ordinal of \<^verbatim>\<open>datetime.toordinal\<close>, then the time of day, minus the
  UTC offset). Python orders two aware datetimes by this instant, and two naive ones by
  their fields, which is the same order with offset zero.
\<close>

definition days_before_year :: "int \<Rightarrow> int" where
  "days_before_year y = (y - 1) * 365 + (y - 1) div 4 - (y - 1) div 100 + (y - 1) div 400"

definition days_before_month :: "nat \<Rightarrow> nat \<Rightarrow> nat" where
  "days_before_month y m = sum_list (map (days_in_month y) [1..<m])"

definition ymd2ord :: "nat \<Rightarrow> nat \<Rightarrow> nat \<Rightarrow> int" where
  "ymd2ord y m d = days_before_year (int y) + int (days_before_month y m) + int d"

definition utc_instant :: "datetime \<Rightarrow> int" where
  "utc_instant dt =
     ((ymd2ord (year dt) (month dt) (day dt) * 86400
        + (int (hour dt) * 3600 + int (minute dt) * 60 + int (second dt))) * 1000000
        + int (microsecond dt))
     - (case tzinfo dt of None \<Rightarrow> 0 | Some off \<Rightarrow> off)"

subsection \<open>\<^verbatim>\<open>process_data\<close> (lines 36 to 49)\<close>

text \<open>
  \<^verbatim>\<open>entry[key]\<close> with a \<^verbatim>\<open>str\<close> key: only a \<^verbatim>\<open>dict\<close> can answer (\<^verbatim>\<open>KeyError\<close> when the
  key is missing); every other value raises \<^verbatim>\<open>TypeError\<close>.
\<close>

fun getitem :: "json \<Rightarrow> string \<Rightarrow> py_error + json" where
  "getitem (JObj kvs) k = (case map_of kvs k of None \<Rightarrow> Inl KeyError | Some v \<Rightarrow> Inr v)"
| "getitem JNull k = Inl TypeError"
| "getitem (JBool b) k = Inl TypeError"
| "getitem (JInt i) k = Inl TypeError"
| "getitem (JReal f) k = Inl TypeError"
| "getitem (JStr s) k = Inl TypeError"
| "getitem (JArr xs) k = Inl TypeError"

text \<open>
  \<^verbatim>\<open>x.replace("Z", "+00:00")\<close>: every \<^verbatim>\<open>Z\<close> of a \<^verbatim>\<open>str\<close> is replaced; no other decoded
  value has the method (\<^verbatim>\<open>AttributeError\<close>).
\<close>

definition replace_char :: "char \<Rightarrow> string \<Rightarrow> string \<Rightarrow> string" where
  "replace_char old new s = concat (map (\<lambda>c. if c = old then new else [c]) s)"

fun py_replace_Z :: "json \<Rightarrow> py_error + string" where
  "py_replace_Z (JStr s) = Inr (replace_char CHR ''Z'' ''+00:00'' s)"
| "py_replace_Z JNull = Inl AttributeError"
| "py_replace_Z (JBool b) = Inl AttributeError"
| "py_replace_Z (JInt i) = Inl AttributeError"
| "py_replace_Z (JReal f) = Inl AttributeError"
| "py_replace_Z (JArr xs) = Inl AttributeError"
| "py_replace_Z (JObj kvs) = Inl AttributeError"

text \<open>
  \<^verbatim>\<open>for entry in data\<close>: a \<^verbatim>\<open>list\<close> gives its elements, a \<^verbatim>\<open>dict\<close> its keys, a \<^verbatim>\<open>str\<close>
  its characters; the other values are not iterable (\<^verbatim>\<open>TypeError\<close>, raised outside the
  \<^verbatim>\<open>try\<close>).
\<close>

fun py_iter :: "json \<Rightarrow> py_error + json list" where
  "py_iter (JArr xs) = Inr xs"
| "py_iter (JObj kvs) = Inr (map (\<lambda>kv. JStr (fst kv)) kvs)"
| "py_iter (JStr s) = Inr (map (\<lambda>c. JStr [c]) s)"
| "py_iter JNull = Inl TypeError"
| "py_iter (JBool b) = Inl TypeError"
| "py_iter (JInt i) = Inl TypeError"
| "py_iter (JReal f) = Inl TypeError"

text \<open>Line 40: \<^verbatim>\<open>datetime.datetime.fromisoformat(entry["created_at"].replace("Z", "+00:00"))\<close>.\<close>

definition entry_time :: "json \<Rightarrow> py_error + datetime" where
  "entry_time entry =
     (case getitem entry ''created_at'' of
        Inl e \<Rightarrow> Inl e
      | Inr c \<Rightarrow> (case py_replace_Z c of Inl e \<Rightarrow> Inl e | Inr s \<Rightarrow> fromisoformat s))"

text \<open>Line 42: \<^verbatim>\<open>float(entry["value"])\<close>.\<close>

definition entry_value :: "json \<Rightarrow> py_error + pyfloat" where
  "entry_value entry =
     (case getitem entry ''value'' of Inl e \<Rightarrow> Inl e | Inr v \<Rightarrow> py_float v)"

text \<open>
  The loop of lines 38 to 44 on the two lists \<^verbatim>\<open>times\<close> and \<^verbatim>\<open>values\<close> (here \<open>tms\<close> and
  \<open>vals\<close>) and the page. The source appends \<open>dt\<close> to \<^verbatim>\<open>times\<close> on line 41, before
  line 42 evaluates \<^verbatim>\<open>float(...)\<close>: when that raises, the handler only warns, and \<^verbatim>\<open>times\<close> keeps the element.
\<close>

fun loop :: "json list \<Rightarrow> datetime list \<times> pyfloat list \<times> ui \<Rightarrow> datetime list \<times> pyfloat list \<times> ui" where
  "loop [] acc = acc"
| "loop (entry # rest) (tms, vals, page) =
     (case entry_time entry of
        Inl e \<Rightarrow> loop rest (tms, vals, page @ [StWarningSkipping entry e])
      | Inr dt \<Rightarrow>
          (case entry_value entry of
             Inl e \<Rightarrow> loop rest (tms @ [dt], vals, page @ [StWarningSkipping entry e])
           | Inr v \<Rightarrow> loop rest (tms @ [dt], vals @ [v], page)))"

text \<open>
  A row of the frame: its index label and the columns \<^verbatim>\<open>time\<close> and \<^verbatim>\<open>value\<close>.
  \<^verbatim>\<open>pd.DataFrame({"time": times, "value": values})\<close> labels the rows from zero and raises
  \<^verbatim>\<open>ValueError\<close> ("All arrays must be of the same length") when the two lists differ in
  length.
\<close>

record row =
  row_index :: nat
  row_time :: datetime
  row_value :: pyfloat

definition DataFrame :: "datetime list \<Rightarrow> pyfloat list \<Rightarrow> py_error + row list" where
  "DataFrame tms vals =
     (if length tms \<noteq> length vals then Inl ValueError
      else Inr (map (\<lambda>(i, t, v). \<lparr>row_index = i, row_time = t, row_value = v\<rparr>)
                  (zip [0..<length tms] (zip tms vals))))"

text \<open>
  \<^verbatim>\<open>.sort_values("time")\<close> orders the rows by the instant of \<^verbatim>\<open>time\<close>, each row keeping its
  label. A column that holds both naive and aware datetimes is a column of Python objects,
  and ordering it compares a naive with an aware datetime, which raises \<^verbatim>\<open>TypeError\<close>.
  pandas does not promise an order among rows of equal \<^verbatim>\<open>time\<close>; the model keeps their
  input order, and no statement below depends on it.
\<close>

definition naive :: "datetime \<Rightarrow> bool" where
  "naive dt = (tzinfo dt = None)"

definition mixed_awareness :: "datetime list \<Rightarrow> bool" where
  "mixed_awareness ts = (list_ex naive ts \<and> list_ex (\<lambda>t. \<not> naive t) ts)"

definition sort_values_time :: "row list \<Rightarrow> py_error + row list" where
  "sort_values_time df =
     (if mixed_awareness (map row_time df) then Inl TypeError
      else Inr (sort_key (\<lambda>r. utc_instant (row_time r)) df))"

text \<open>\<^verbatim>\<open>.reset_index(drop=True)\<close> relabels the rows 0, 1, 2, ... in their present order.\<close>

definition reset_index :: "row list \<Rightarrow> row list" where
  "reset_index df = map (\<lambda>(i, r). r\<lparr>row_index := i\<rparr>) (zip [0..<length df] df)"

definition process_data :: "json \<Rightarrow> ui \<Rightarrow> (py_error + row list) \<times> ui" where
  "process_data data page =
     (case py_iter data of
        Inl e \<Rightarrow> (Inl e, page)
      | Inr entries \<Rightarrow>
          (case loop entries ([], [], page) of
             (tms, vals, page') \<Rightarrow>
               (case DataFrame tms vals of
                  Inl e \<Rightarrow> (Inl e, page')
                | Inr df \<Rightarrow>
                    (case sort_values_time df of
                       Inl e \<Rightarrow> (Inl e, page')
                     | Inr sorted_df \<Rightarrow> (Inr (reset_index sorted_df), page')))))"

subsection \<open>Configuration (lines 13 to 19)\<close>

text \<open>
  \<^verbatim>\<open>AIO_USERNAME\<close> and \<^verbatim>\<open>AIO_KEY\<close> come from the environment or the secrets store when the
  module is loaded; the key may be missing (\<^verbatim>\<open>None\<close>).
\<close>

record config =
  AIO_USERNAME :: string
  AIO_KEY :: "string option"

definition TEMP_FEED_KEY :: string where
  "TEMP_FEED_KEY = ''temperature''"

definition HUMID_FEED_KEY :: string where
  "HUMID_FEED_KEY = ''humidity''"

definition LIMIT :: int where
  "LIMIT = 500"

subsection \<open>The network and the page\<close>

text \<open>
  What \<^verbatim>\<open>requests.get(url, headers=headers, params=params)\<close> is asked to send, and what
  the call gives:
  \<^item> \<open>NoResponse\<close>: no response; requests raises a \<^verbatim>\<open>RequestException\<close> such as
    \<^verbatim>\<open>ConnectionError\<close>, with the given text;
  \<^item> \<open>Raises\<close>: the call raises the given exception, which need not be one of requests
    (\<^verbatim>\<open>UnicodeEncodeError\<close> when the API key has a character outside latin-1, which the HTTP
    library cannot put in a header);
  \<^item> \<open>Response\<close>: a response with its status, reason phrase, final URL and body.

  The body is given by what \<^verbatim>\<open>response.json()\<close> does with it: \<open>Inr\<close> of the decoded JSON, or
  \<open>Inl\<close> of the exception raised. That is \<open>RequestException JSONDecodeError\<close> with the
  decoder's message when the text is not JSON (requests wraps the decoder's error since 2.27),
  and it is the decoder's own \<^verbatim>\<open>RecursionError\<close> for a text nested too deeply or
  \<^verbatim>\<open>ValueError\<close> for an integer beyond the interpreter's digit limit, which requests does
  not wrap.
\<close>

record request =
  req_method :: string
  req_url :: string
  req_headers :: "(string \<times> string option) list"
  req_params :: "(string \<times> int) list"

record response =
  status_code :: nat
  reason :: string
  url :: string
  body :: "py_error + json"

datatype reply = NoResponse string | Raises py_error | Response response

type_synonym network = "request \<Rightarrow> reply"

text \<open>
  The state the script works on: the messages shown on the page, the requests handed to
  \<^verbatim>\<open>requests.get\<close> so far, and the table of \<^verbatim>\<open>st.cache_data\<close>. An entry of the table holds the returned value, the
  messages the call showed (Streamlit replays them on a hit) and the time it was stored.
  A call is keyed by the arguments it was given; \<open>None\<close> is an omitted \<^verbatim>\<open>limit\<close>.
\<close>

record cache_entry =
  cached_value :: json
  cached_msgs :: ui
  stored_at :: real

record world =
  w_page :: ui
  w_sent :: "request list"
  w_cache :: "string \<times> int option \<Rightarrow> cache_entry option"

subsection \<open>\<^verbatim>\<open>get_feed_data\<close> (lines 22 to 33)\<close>

text \<open>Lines 24 to 26 and the arguments of line 28.\<close>

definition request_for :: "config \<Rightarrow> string \<Rightarrow> int \<Rightarrow> request" where
  "request_for cfg feed_key limit =
     \<lparr>req_method = ''GET'',
      req_url = ''https://io.adafruit.com/api/v2/'' @ AIO_USERNAME cfg @ ''/feeds/'' @ feed_key @ ''/data'',
      req_headers = [(''X-AIO-Key'', AIO_KEY cfg)],
      req_params = [(''limit'', limit)]\<rparr>"

fun str_nat :: "nat \<Rightarrow> string" where
  "str_nat n =
     (if n < 10 then [char_of (48 + n)] else str_nat (n div 10) @ [char_of (48 + n mod 10)])"

text \<open>
  \<^verbatim>\<open>response.raise_for_status()\<close> raises \<^verbatim>\<open>HTTPError\<close> for a status from 400 to 599, with the
  text requests builds, and for no other status; \<^verbatim>\<open>response.json()\<close> returns the decoded
  body or raises what the decoding raises.
\<close>

definition http_error_msg :: "string \<Rightarrow> response \<Rightarrow> string" where
  "http_error_msg kind r =
     str_nat (status_code r) @ '' '' @ kind @ '': '' @ reason r @ '' for url: '' @ url r"

definition raise_for_status :: "response \<Rightarrow> py_error + unit" where
  "raise_for_status r =
     (if 400 \<le> status_code r \<and> status_code r < 500
        then Inl (RequestException HTTPError (http_error_msg ''Client Error'' r))
      else if 500 \<le> status_code r \<and> status_code r < 600
        then Inl (RequestException HTTPError (http_error_msg ''Server Error'' r))
      else Inr ())"

definition response_json :: "response \<Rightarrow> py_error + json" where
  "response_json r = body r"

text \<open>The \<^verbatim>\<open>try\<close> block, lines 28 to 30.\<close>

definition try_block :: "network \<Rightarrow> request \<Rightarrow> py_error + json" where
  "try_block net req =
     (case net req of
        NoResponse msg \<Rightarrow> Inl (RequestException ConnectionError msg)
      | Raises e \<Rightarrow> Inl e
      | Response r \<Rightarrow>
          (case raise_for_status r of
             Inl e \<Rightarrow> Inl e
           | Inr u \<Rightarrow> response_json r))"

text \<open>
  The body of the function: the handler of line 31 catches a \<^verbatim>\<open>RequestException\<close>, shows
  the error and returns \<^verbatim>\<open>None\<close> (\<open>JNull\<close>); an exception of any other class leaves the
  function. \<open>is_RequestException\<close> is the class test of that handler.
\<close>

definition fetch_error_text :: "string \<Rightarrow> string \<Rightarrow> string" where
  "fetch_error_text feed_key msg = ''Error fetching data for '' @ feed_key @ '': '' @ msg"

fun is_RequestException :: "py_error \<Rightarrow> bool" where
  "is_RequestException (RequestException k msg) = True"
| "is_RequestException e = False"

definition get_feed_data_body ::
    "config \<Rightarrow> network \<Rightarrow> string \<Rightarrow> int \<Rightarrow> world \<Rightarrow> (py_error + json) \<times> world" where
  "get_feed_data_body cfg net feed_key limit w =
     (let req = request_for cfg feed_key limit;
          w1 = w\<lparr>w_sent := w_sent w @ [req]\<rparr>
      in case try_block net req of
           Inr j \<Rightarrow> (Inr j, w1)
         | Inl e \<Rightarrow>
             (case e of
                RequestException k msg \<Rightarrow>
                  (Inr JNull, w1\<lparr>w_page := w_page w1 @ [StError (fetch_error_text feed_key msg)]\<rparr>)
              | TypeError \<Rightarrow> (Inl e, w1)
              | KeyError \<Rightarrow> (Inl e, w1)
              | AttributeError \<Rightarrow> (Inl e, w1)
              | ValueError \<Rightarrow> (Inl e, w1)
              | OverflowError \<Rightarrow> (Inl e, w1)
              | RecursionError \<Rightarrow> (Inl e, w1)
              | UnicodeEncodeError \<Rightarrow> (Inl e, w1)))"

text \<open>
  Line 22, \<^verbatim>\<open>@st.cache_data(ttl=600)\<close>: a call whose arguments have an entry younger than
  \<open>ttl\<close> seconds returns the stored value and replays the stored messages, without running
  the body; otherwise the body runs and, when it returns, its value is stored (whatever the
  value, so a \<^verbatim>\<open>None\<close> is stored too); when it raises, nothing is stored. The clock is the
  argument \<open>now\<close>, in seconds.
\<close>

definition ttl :: real where
  "ttl = 600"

definition cache_lookup :: "real \<Rightarrow> world \<Rightarrow> string \<times> int option \<Rightarrow> cache_entry option" where
  "cache_lookup now w key =
     (case w_cache w key of
        None \<Rightarrow> None
      | Some ent \<Rightarrow> if now < stored_at ent + ttl then Some ent else None)"

definition get_feed_data ::
    "config \<Rightarrow> network \<Rightarrow> real \<Rightarrow> string \<Rightarrow> int option \<Rightarrow> world \<Rightarrow> (py_error + json) \<times> world" where
  "get_feed_data cfg net now feed_key limit w =
     (case cache_lookup now w (feed_key, limit) of
        Some ent \<Rightarrow> (Inr (cached_value ent), w\<lparr>w_page := w_page w @ cached_msgs ent\<rparr>)
      | None \<Rightarrow>
          (case get_feed_data_body cfg net feed_key (case limit of None \<Rightarrow> LIMIT | Some l \<Rightarrow> l) w of
             (Inl e, w1) \<Rightarrow> (Inl e, w1)
           | (Inr j, w1) \<Rightarrow>
               (Inr j,
                w1\<lparr>w_cache := (w_cache w1)((feed_key, limit) \<mapsto>
                      \<lparr>cached_value = j,
                       cached_msgs = drop (length (w_page w)) (w_page w1),
                       stored_at = now\<rparr>)\<rparr>)))"

text \<open>Line 67, \<^verbatim>\<open>st.cache_data.clear()\<close>.\<close>

definition cache_clear :: "world \<Rightarrow> world" where
  "cache_clear w = w\<lparr>w_cache := (\<lambda>key. None)\<rparr>"

subsection \<open>\<^verbatim>\<open>create_dashboard\<close> (lines 52 to 152)\<close>

text \<open>Python's truth value of a decoded value, and \<^verbatim>\<open>x or []\<close> of lines 86 and 87.\<close>

fun truthy :: "json \<Rightarrow> bool" where
  "truthy JNull = False"
| "truthy (JBool b) = b"
| "truthy (JInt i) = (i \<noteq> 0)"
| "truthy (JReal f) = (f \<noteq> FNum 0)"
| "truthy (JStr s) = (s \<noteq> [])"
| "truthy (JArr xs) = (xs \<noteq> [])"
| "truthy (JObj kvs) = (kvs \<noteq> [])"

definition or_empty_list :: "json \<Rightarrow> json" where
  "or_empty_list x = (if truthy x then x else JArr [])"

text \<open>
  How a run of the script ends: \<^verbatim>\<open>st.rerun()\<close> after the refresh button (line 68), the
  \<^verbatim>\<open>return\<close> of line 84 or of line 91, or the chart and the two tables drawn from the two
  frames (lines 93 to 152; the drawing itself is matplotlib's and Streamlit's and is not
  modelled). An exception that nothing catches ends the run as \<open>Inl\<close>.
\<close>

datatype outcome =
    Rerun
  | FetchFailed
  | NoValidData
  | Rendered "row list" "row list"

definition fetch_failed_text :: string where
  "fetch_failed_text = ''Unable to fetch data from Adafruit IO. Check your credentials or network.''"

definition no_data_text :: string where
  "no_data_text = ''No valid data available. Ensure your ESP32 is uploading to Adafruit IO.''"

definition show_msg :: "ui_msg \<Rightarrow> world \<Rightarrow> world" where
  "show_msg m w = w\<lparr>w_page := w_page w @ [m]\<rparr>"

text \<open>Lines 86 to 152, reached when neither fetch returned \<^verbatim>\<open>None\<close>.\<close>

definition process_and_render :: "json \<Rightarrow> json \<Rightarrow> world \<Rightarrow> (py_error + outcome) \<times> world" where
  "process_and_render temp_data_raw humid_data_raw w =
     (case process_data (or_empty_list temp_data_raw) (w_page w) of
        (Inl e, p1) \<Rightarrow> (Inl e, w\<lparr>w_page := p1\<rparr>)
      | (Inr temp_df, p1) \<Rightarrow>
          (case process_data (or_empty_list humid_data_raw) p1 of
             (Inl e, p2) \<Rightarrow> (Inl e, w\<lparr>w_page := p2\<rparr>)
           | (Inr humid_df, p2) \<Rightarrow>
               if temp_df = [] \<and> humid_df = []
               then (Inr NoValidData, show_msg (StWarning no_data_text) (w\<lparr>w_page := p2\<rparr>))
               else (Inr (Rendered temp_df humid_df), w\<lparr>w_page := p2\<rparr>)))"

definition create_dashboard ::
    "config \<Rightarrow> network \<Rightarrow> real \<Rightarrow> bool \<Rightarrow> world \<Rightarrow> (py_error + outcome) \<times> world" where
  "create_dashboard cfg net now refresh_clicked w =
     (if refresh_clicked then (Inr Rerun, cache_clear w)
      else
        (case get_feed_data cfg net now TEMP_FEED_KEY None w of
           (Inl e, w1) \<Rightarrow> (Inl e, w1)
         | (Inr temp_data_raw, w1) \<Rightarrow>
             (case get_feed_data cfg net now HUMID_FEED_KEY None w1 of
                (Inl e, w2) \<Rightarrow> (Inl e, w2)
              | (Inr humid_data_raw, w2) \<Rightarrow>
                  if temp_data_raw = JNull \<or> humid_data_raw = JNull
                  then (Inr FetchFailed, show_msg (StError fetch_failed_text) w2)
                  else process_and_render temp_data_raw humid_data_raw w2)))"

section \<open>What the loop of \<^verbatim>\<open>process_data\<close> collects\<close>

text \<open>
  Two functions that describe the lists the loop builds, used to state and prove the
  properties below: \<open>parsed_times\<close> is the timestamp of every entry whose \<^verbatim>\<open>created_at\<close>
  parses, \<open>parsed_points\<close> is the (timestamp, value) pair of every entry whose two fields
  both parse. \<open>parses\<close> says that both fields of an entry parse, \<open>frame\<close> is the
  frame built from a list of points, and \<open>series_of\<close> is the sorted, relabelled frame.
\<close>

fun parsed_times :: "json list \<Rightarrow> datetime list" where
  "parsed_times [] = []"
| "parsed_times (e # es) =
     (case entry_time e of Inl x \<Rightarrow> parsed_times es | Inr dt \<Rightarrow> dt # parsed_times es)"

fun parsed_points :: "json list \<Rightarrow> (datetime \<times> pyfloat) list" where
  "parsed_points [] = []"
| "parsed_points (e # es) =
     (case entry_time e of
        Inl x \<Rightarrow> parsed_points es
      | Inr dt \<Rightarrow>
          (case entry_value e of
             Inl x \<Rightarrow> parsed_points es
           | Inr v \<Rightarrow> (dt, v) # parsed_points es))"

definition parses :: "json \<Rightarrow> bool" where
  "parses e = (\<not> isl (entry_time e) \<and> \<not> isl (entry_value e))"

definition frame :: "(datetime \<times> pyfloat) list \<Rightarrow> row list" where
  "frame pts = map (\<lambda>(i, t, v). \<lparr>row_index = i, row_time = t, row_value = v\<rparr>) (zip [0..<length pts] pts)"

definition series_of :: "json list \<Rightarrow> row list" where
  "series_of es = reset_index (sort_key (\<lambda>r. utc_instant (row_time r)) (frame (parsed_points es)))"

text \<open>
  A record as the feed sends it, a \<^verbatim>\<open>dict\<close> with the two \<^verbatim>\<open>str\<close> fields, for the concrete
  inputs below.
\<close>

definition feed_record :: "string \<Rightarrow> string \<Rightarrow> json" where
  "feed_record created_at v = JObj [(''created_at'', JStr created_at), (''value'', JStr v)]"

text \<open>
  A configuration, an empty state (nothing shown, nothing sent, nothing cached) and some
  networks for the concrete inputs below: one that refuses every connection, one that answers
  every request with a given status, reason phrase and body, one that serves the humidity
  feed only, and one that refuses the temperature feed and answers the humidity feed with a
  body nested too deeply for the decoder.
\<close>

definition example_config :: config where
  "example_config = \<lparr>AIO_USERNAME = ''emon4075'', AIO_KEY = Some ''secret''\<rparr>"

definition example_world :: world where
  "example_world = \<lparr>w_page = [], w_sent = [], w_cache = (\<lambda>key. None)\<rparr>"

definition net_down :: network where
  "net_down req = NoResponse ''Connection refused''"

definition net_reply :: "nat \<Rightarrow> string \<Rightarrow> py_error + json \<Rightarrow> network" where
  "net_reply status phrase b req =
     Response \<lparr>status_code = status, reason = phrase, url = req_url req, body = b\<rparr>"

definition net_humidity_only :: network where
  "net_humidity_only req =
     (if req_url req = ''https://io.adafruit.com/api/v2/emon4075/feeds/humidity/data''
      then net_reply 200 ''OK'' (Inr (JArr [feed_record ''2024-01-01T00:00:01Z'' ''61.0''])) req
      else net_down req)"

definition net_humidity_too_deep :: network where
  "net_humidity_too_deep req =
     (if req_url req = ''https://io.adafruit.com/api/v2/emon4075/feeds/humidity/data''
      then net_reply 200 ''OK'' (Inl RecursionError) req
      else net_down req)"

definition example_data :: json where
  "example_data = JArr [feed_record ''2024-01-01T00:00:01Z'' ''24.5'']"

section \<open>Properties\<close>

subsection \<open>The loop and the frame\<close>

lemma loop_lists:
  "fst (loop es (ts, vs, p)) = ts @ parsed_times es \<and>
   fst (snd (loop es (ts, vs, p))) = vs @ map snd (parsed_points es)"
  by (induction es arbitrary: ts vs p) (auto split: sum.splits)

lemma length_points_le_times: "length (parsed_points es) \<le> length (parsed_times es)"
  by (induction es) (auto split: sum.splits)

lemma times_eq_points:
  "length (parsed_times es) = length (parsed_points es) \<Longrightarrow>
   parsed_times es = map fst (parsed_points es)"
proof (induction es)
  case Nil
  then show ?case by simp
next
  case (Cons e es)
  have le: "length (parsed_points es) \<le> length (parsed_times es)"
    by (rule length_points_le_times)
  from Cons le show ?case by (auto split: sum.splits)
qed

lemma points_from_input:
  "(dt, v) \<in> set (parsed_points es) \<Longrightarrow>
   \<exists>e \<in> set es. entry_time e = Inr dt \<and> entry_value e = Inr v"
  by (induction es) (auto split: sum.splits)

lemma length_points_le: "length (parsed_points es) \<le> length es"
  by (induction es) (auto split: sum.splits)

lemma points_all_parse:
  "list_all parses es \<Longrightarrow> length (parsed_points es) = length es \<and> parsed_times es = map fst (parsed_points es)"
  by (induction es) (auto simp: parses_def split: sum.splits)

lemma loop_page_all_parse:
  "list_all parses es \<Longrightarrow> snd (snd (loop es (ts, vs, p))) = p"
  by (induction es arbitrary: ts vs p) (auto simp: parses_def split: sum.splits)

lemma DataFrame_zip:
  "length ts = length vs \<Longrightarrow> DataFrame ts vs = Inr (frame (zip ts vs))"
  by (simp add: DataFrame_def frame_def)

lemma frame_points: "map (\<lambda>r. (row_time r, row_value r)) (frame pts) = pts"
  unfolding frame_def
  by (rule nth_equalityI) (auto simp: split_def)

lemma reset_index_points:
  "map (\<lambda>r. (row_time r, row_value r)) (reset_index df) = map (\<lambda>r. (row_time r, row_value r)) df"
  unfolding reset_index_def
  by (rule nth_equalityI) (auto simp: split_def)

lemma reset_index_labels: "map row_index (reset_index df) = [0..<length df]"
  unfolding reset_index_def
  by (rule nth_equalityI) (auto simp: split_def)

lemma reset_index_length: "length (reset_index df) = length df"
  by (simp add: reset_index_def)

lemma reset_index_times: "map row_time (reset_index df) = map row_time df"
  unfolding reset_index_def
  by (rule nth_equalityI) (auto simp: split_def)

lemma frame_times: "map row_time (frame pts) = map fst pts"
proof -
  have "map fst (map (\<lambda>r. (row_time r, row_value r)) (frame pts)) = map fst pts"
    by (simp only: frame_points)
  then show ?thesis by (simp add: comp_def)
qed

lemma frame_length: "length (frame pts) = length pts"
  by (simp add: frame_def)

lemma process_data_run:
  assumes it: "py_iter data = Inr es"
  shows "fst (process_data data page) =
           (if length (parsed_times es) \<noteq> length (parsed_points es) then Inl ValueError
            else if mixed_awareness (parsed_times es) then Inl TypeError
            else Inr (series_of es))"
proof -
  obtain tms vals p where l: "loop es ([], [], page) = (tms, vals, p)"
    by (cases "loop es ([], [], page)") auto
  from loop_lists [of es "[]" "[]" page] l
  have tv: "tms = parsed_times es" "vals = map snd (parsed_points es)" by simp_all
  show ?thesis
  proof (cases "length (parsed_times es) = length (parsed_points es)")
    case False
    then show ?thesis
      by (simp add: process_data_def it l tv DataFrame_def)
  next
    case True
    then have eq: "parsed_times es = map fst (parsed_points es)" by (rule times_eq_points)
    have z: "zip tms vals = parsed_points es"
      by (simp add: tv eq zip_map_fst_snd)
    have "length tms = length vals" by (simp add: tv eq)
    then have "DataFrame tms vals = Inr (frame (zip tms vals))" by (rule DataFrame_zip)
    then have df: "DataFrame tms vals = Inr (frame (parsed_points es))" by (simp only: z)
    show ?thesis
      by (simp add: process_data_def it l df sort_values_time_def frame_times series_of_def True eq)
  qed
qed

lemma series_of_points:
  "set (map (\<lambda>r. (row_time r, row_value r)) (series_of es)) = set (parsed_points es)"
proof -
  have "set (map (\<lambda>r. (row_time r, row_value r)) (series_of es))
        = (\<lambda>r. (row_time r, row_value r)) ` set (frame (parsed_points es))"
    by (simp add: series_of_def reset_index_points)
  also have "\<dots> = set (map (\<lambda>r. (row_time r, row_value r)) (frame (parsed_points es)))"
    by simp
  finally show ?thesis by (simp only: frame_points)
qed

lemma series_of_length: "length (series_of es) = length (parsed_points es)"
  by (simp add: series_of_def reset_index_length frame_length)

lemma series_of_sorted: "sorted (map (\<lambda>r. utc_instant (row_time r)) (series_of es))"
proof -
  have "map (\<lambda>r. utc_instant (row_time r)) (series_of es)
        = map utc_instant (map row_time (series_of es))" by (simp add: comp_def)
  also have "\<dots> = map utc_instant (map row_time (sort_key (\<lambda>r. utc_instant (row_time r)) (frame (parsed_points es))))"
    by (simp only: series_of_def reset_index_times)
  also have "\<dots> = map (\<lambda>r. utc_instant (row_time r)) (sort_key (\<lambda>r. utc_instant (row_time r)) (frame (parsed_points es)))"
    by (simp add: comp_def)
  finally show ?thesis by (simp only: sorted_sort_key)
qed

lemma series_of_labels: "map row_index (series_of es) = [0..<length (series_of es)]"
  by (simp add: series_of_def reset_index_labels reset_index_length)

lemma sorted_nth_form:
  "sorted (map f xs) \<Longrightarrow> i < j \<Longrightarrow> j < length xs \<Longrightarrow> f (xs ! i) \<le> (f (xs ! j) :: int)"
  using sorted_iff_nth_mono_less [of "map f xs"] by auto

lemma process_data_snd:
  "py_iter data = Inr es \<Longrightarrow> snd (process_data data page) = snd (snd (loop es ([], [], page)))"
  unfolding process_data_def
  by (cases "loop es ([], [], page)") (auto split: sum.splits)

lemma process_data_all_parse:
  assumes "list_all parses es" and "\<not> mixed_awareness (parsed_times es)"
  shows "process_data (JArr es) page = (Inr (series_of es), page)"
proof -
  from assms(1) have len: "length (parsed_points es) = length es"
    and eq: "parsed_times es = map fst (parsed_points es)"
    using points_all_parse by blast+
  have it: "py_iter (JArr es) = Inr es" by simp
  from process_data_run [OF it, of page] assms(2) eq
  have f: "fst (process_data (JArr es) page) = Inr (series_of es)" by simp
  have "snd (process_data (JArr es) page) = snd (snd (loop es ([], [], page)))"
    using it by (rule process_data_snd)
  also have "\<dots> = page" using assms(1) by (rule loop_page_all_parse)
  finally show ?thesis using f by (simp add: prod_eq_iff)
qed

lemma series_of_nth_mono:
  "i < j \<Longrightarrow> j < length (series_of es) \<Longrightarrow>
   utc_instant (row_time (series_of es ! i)) \<le> utc_instant (row_time (series_of es ! j))"
  using series_of_sorted [of es] by (rule sorted_nth_form)

text \<open>
  The defect of lines 41 and 42 in general: one entry whose timestamp parses and whose value
  does not makes the two lists differ in length, and the frame constructor raises.
\<close>

lemma half_parsed_lengths:
  "e \<in> set es \<Longrightarrow> entry_time e = Inr dt \<Longrightarrow> entry_value e = Inl x \<Longrightarrow>
   length (parsed_points es) < length (parsed_times es)"
proof (induction es)
  case Nil
  then show ?case by simp
next
  case (Cons a es)
  have le: "length (parsed_points es) \<le> length (parsed_times es)"
    by (rule length_points_le_times)
  show ?case
  proof (cases "a = e")
    case True
    with Cons.prems le show ?thesis by simp
  next
    case False
    with Cons have "length (parsed_points es) < length (parsed_times es)" by simp
    then show ?thesis by (simp split: sum.splits)
  qed
qed

lemma half_parsed_aborts:
  assumes "py_iter data = Inr es" and "e \<in> set es"
    and "entry_time e = Inr dt" and "entry_value e = Inl x"
  shows "fst (process_data data page) = Inl ValueError"
proof -
  from assms(2-4) have "length (parsed_points es) < length (parsed_times es)"
    by (rule half_parsed_lengths)
  with process_data_run [OF assms(1), of page] show ?thesis by simp
qed

subsection \<open>The two fields of a feed record\<close>

lemma replace_char_absent: "c \<notin> set s \<Longrightarrow> replace_char c new s = s"
  by (induction s) (auto simp: replace_char_def)

lemma replace_char_append:
  "replace_char c new (a @ b) = replace_char c new a @ replace_char c new b"
  by (simp add: replace_char_def)

lemma entry_time_feed_record:
  "entry_time (feed_record c v) = fromisoformat (replace_char CHR ''Z'' ''+00:00'' c)"
  by (simp add: entry_time_def feed_record_def)

lemma entry_value_feed_record:
  "entry_value (feed_record c v) = py_float (JStr v)"
  by (simp add: entry_value_def feed_record_def)

lemma dropWhile_all: "list_all P xs \<Longrightarrow> dropWhile P xs = []"
  by (induction xs) auto

lemma strip_padding:
  assumes a: "list_all is_space a" and b: "list_all is_space b"
  shows "strip (a @ s @ b) = strip s"
proof -
  from a have 1: "dropWhile is_space (a @ (s @ b)) = dropWhile is_space (s @ b)"
    by (intro dropWhile_append2) (simp add: list_all_iff)
  have 2: "rev (dropWhile is_space (rev (dropWhile is_space (s @ b))))
           = rev (dropWhile is_space (rev (dropWhile is_space s)))"
  proof (cases "list_all is_space s")
    case True
    with b have "list_all is_space (s @ b)" by simp
    then have "dropWhile is_space (s @ b) = []" by (rule dropWhile_all)
    moreover from True have "dropWhile is_space s = []" by (rule dropWhile_all)
    ultimately show ?thesis by (simp only:)
  next
    case False
    then obtain x where x: "x \<in> set s" "\<not> is_space x" by (auto simp: list_all_iff)
    then have 3: "dropWhile is_space (s @ b) = dropWhile is_space s @ b"
      by (rule dropWhile_append1)
    from b have "dropWhile is_space (rev b @ rev (dropWhile is_space s))
                 = dropWhile is_space (rev (dropWhile is_space s))"
      by (intro dropWhile_append2) (simp add: list_all_iff)
    then show ?thesis by (simp only: 3 rev_append)
  qed
  show ?thesis unfolding strip_def by (simp only: 1 2)
qed

subsection \<open>The fetcher and its cache\<close>

lemma raise_for_status_cases:
  "raise_for_status r = Inr () \<or> (\<exists>msg. raise_for_status r = Inl (RequestException HTTPError msg))"
  by (simp add: raise_for_status_def)

lemma body_sent:
  "w_sent (snd (get_feed_data_body cfg net feed_key lmt w)) = w_sent w @ [request_for cfg feed_key lmt]"
  by (simp add: get_feed_data_body_def Let_def split: sum.splits py_error.splits)

lemma body_no_RequestException:
  "fst (get_feed_data_body cfg net feed_key lmt w) \<noteq> Inl (RequestException k msg)"
  by (simp add: get_feed_data_body_def Let_def split: sum.splits py_error.splits)

lemma body_uncaught:
  "try_block net (request_for cfg feed_key lmt) = Inl e \<Longrightarrow> \<not> is_RequestException e \<Longrightarrow>
   get_feed_data_body cfg net feed_key lmt w
     = (Inl e, w\<lparr>w_sent := w_sent w @ [request_for cfg feed_key lmt]\<rparr>)"
  by (cases e) (simp_all add: get_feed_data_body_def Let_def)

lemma body_failure:
  "try_block net (request_for cfg feed_key lmt) = Inl (RequestException k msg) \<Longrightarrow>
   get_feed_data_body cfg net feed_key lmt w
     = (Inr JNull,
        w\<lparr>w_sent := w_sent w @ [request_for cfg feed_key lmt],
          w_page := w_page w @ [StError (''Error fetching data for '' @ feed_key @ '': '' @ msg)]\<rparr>)"
  by (simp add: get_feed_data_body_def Let_def fetch_error_text_def)

lemma body_success:
  "try_block net (request_for cfg feed_key lmt) = Inr d \<Longrightarrow>
   get_feed_data_body cfg net feed_key lmt w
     = (Inr d, w\<lparr>w_sent := w_sent w @ [request_for cfg feed_key lmt]\<rparr>)"
  by (simp add: get_feed_data_body_def Let_def)

lemma miss_runs_body:
  "cache_lookup now w (feed_key, limit) = None \<Longrightarrow>
   fst (get_feed_data cfg net now feed_key limit w)
     = fst (get_feed_data_body cfg net feed_key (case limit of None \<Rightarrow> LIMIT | Some l \<Rightarrow> l) w)
   \<and> w_sent (snd (get_feed_data cfg net now feed_key limit w))
     = w_sent w @ [request_for cfg feed_key (case limit of None \<Rightarrow> LIMIT | Some l \<Rightarrow> l)]"
proof -
  assume miss: "cache_lookup now w (feed_key, limit) = None"
  obtain r w1 where b:
    "get_feed_data_body cfg net feed_key (case limit of None \<Rightarrow> LIMIT | Some l \<Rightarrow> l) w = (r, w1)"
    by (cases "get_feed_data_body cfg net feed_key (case limit of None \<Rightarrow> LIMIT | Some l \<Rightarrow> l) w")
  have "w_sent w1 = w_sent w @ [request_for cfg feed_key (case limit of None \<Rightarrow> LIMIT | Some l \<Rightarrow> l)]"
    using body_sent [of cfg net feed_key "case limit of None \<Rightarrow> LIMIT | Some l \<Rightarrow> l" w] b by simp
  with miss b show ?thesis by (cases r) (simp_all add: get_feed_data_def)
qed

lemma miss_stores:
  assumes miss: "cache_lookup now w (feed_key, limit) = None"
    and ret: "fst (get_feed_data cfg net now feed_key limit w) = Inr j"
  shows "\<exists>ent. w_cache (snd (get_feed_data cfg net now feed_key limit w)) (feed_key, limit) = Some ent
           \<and> cached_value ent = j \<and> stored_at ent = now"
proof -
  obtain r w1 where b:
    "get_feed_data_body cfg net feed_key (case limit of None \<Rightarrow> LIMIT | Some l \<Rightarrow> l) w = (r, w1)"
    by (cases "get_feed_data_body cfg net feed_key (case limit of None \<Rightarrow> LIMIT | Some l \<Rightarrow> l) w")
  with miss ret show ?thesis by (cases r) (simp_all add: get_feed_data_def)
qed

lemma miss_raises:
  assumes miss: "cache_lookup now w (feed_key, limit) = None"
    and raised: "fst (get_feed_data cfg net now feed_key limit w) = Inl e"
  shows "w_cache (snd (get_feed_data cfg net now feed_key limit w)) = w_cache w"
proof -
  obtain r w1 where b:
    "get_feed_data_body cfg net feed_key (case limit of None \<Rightarrow> LIMIT | Some l \<Rightarrow> l) w = (r, w1)"
    by (cases "get_feed_data_body cfg net feed_key (case limit of None \<Rightarrow> LIMIT | Some l \<Rightarrow> l) w")
  have "w_cache (snd (get_feed_data_body cfg net feed_key (case limit of None \<Rightarrow> LIMIT | Some l \<Rightarrow> l) w))
          = w_cache w"
    by (simp add: get_feed_data_body_def Let_def split: sum.splits py_error.splits)
  with b have "w_cache w1 = w_cache w" by simp
  with miss raised b show ?thesis by (cases r) (simp_all add: get_feed_data_def)
qed

lemma hit_returns_cached:
  "cache_lookup now w (feed_key, limit) = Some ent \<Longrightarrow>
   get_feed_data cfg net now feed_key limit w
     = (Inr (cached_value ent), w\<lparr>w_page := w_page w @ cached_msgs ent\<rparr>)"
  by (simp add: get_feed_data_def)

lemma raise_for_status_error:
  "400 \<le> status_code r \<Longrightarrow> status_code r < 600 \<Longrightarrow>
   raise_for_status r = Inl (RequestException HTTPError
      (http_error_msg (if status_code r < 500 then ''Client Error'' else ''Server Error'') r))"
  by (cases "status_code r < 500") (simp_all add: raise_for_status_def)

lemma raise_for_status_ok:
  "\<not> (400 \<le> status_code r \<and> status_code r < 600) \<Longrightarrow> raise_for_status r = Inr ()"
  by (auto simp: raise_for_status_def)

lemma first_fetch_example:
  "fst (get_feed_data example_config (net_reply 200 ''OK'' (Inr example_data)) 0 ''temperature'' None
          example_world) = Inr example_data"
  by (simp add: get_feed_data_def cache_lookup_def example_world_def get_feed_data_body_def
        try_block_def net_reply_def raise_for_status_def response_json_def Let_def)

lemma str_nat_404: "str_nat 404 = ''404''"
  by code_simp

lemma temperature_fetch_fails:
  "get_feed_data example_config net_humidity_only 0 TEMP_FEED_KEY None example_world
     = (Inr JNull,
        \<lparr>w_page = [StError ''Error fetching data for temperature: Connection refused''],
         w_sent = [request_for example_config ''temperature'' 500],
         w_cache = (\<lambda>key. None)((''temperature'', None) \<mapsto>
            \<lparr>cached_value = JNull,
             cached_msgs = [StError ''Error fetching data for temperature: Connection refused''],
             stored_at = 0\<rparr>)\<rparr>)"
  by (simp add: get_feed_data_def cache_lookup_def example_world_def get_feed_data_body_def
        try_block_def net_humidity_only_def net_down_def request_for_def example_config_def
        TEMP_FEED_KEY_def LIMIT_def fetch_error_text_def Let_def)

lemma temperature_refused:
  "get_feed_data example_config net_humidity_too_deep 0 TEMP_FEED_KEY None example_world
     = (Inr JNull,
        \<lparr>w_page = [StError ''Error fetching data for temperature: Connection refused''],
         w_sent = [request_for example_config ''temperature'' 500],
         w_cache = (\<lambda>key. None)((''temperature'', None) \<mapsto>
            \<lparr>cached_value = JNull,
             cached_msgs = [StError ''Error fetching data for temperature: Connection refused''],
             stored_at = 0\<rparr>)\<rparr>)"
  by (simp add: get_feed_data_def cache_lookup_def example_world_def get_feed_data_body_def
        try_block_def net_humidity_too_deep_def net_down_def request_for_def example_config_def
        TEMP_FEED_KEY_def LIMIT_def fetch_error_text_def Let_def)

lemma humidity_fetch_succeeds:
  "fst (get_feed_data example_config net_humidity_only 0 HUMID_FEED_KEY None
          (snd (get_feed_data example_config net_humidity_only 0 TEMP_FEED_KEY None example_world)))
     = Inr (JArr [feed_record ''2024-01-01T00:00:01Z'' ''61.0''])"
  by (simp add: temperature_fetch_fails)
     (simp add: get_feed_data_def cache_lookup_def get_feed_data_body_def
        try_block_def net_humidity_only_def net_reply_def request_for_def example_config_def
        HUMID_FEED_KEY_def LIMIT_def raise_for_status_def response_json_def Let_def)

subsection \<open>The normalizer never fabricates a point\<close>

text \<open>
  C9. Whenever \<^verbatim>\<open>process_data\<close> returns a frame, the input was iterable, the frame has at
  most as many rows as the input had entries, and the \<^verbatim>\<open>time\<close> and \<^verbatim>\<open>value\<close> of every row
  are the parsed \<^verbatim>\<open>created_at\<close> and \<^verbatim>\<open>value\<close> of one and the same input entry.
\<close>

theorem no_fabrication:
  assumes "process_data data page = (Inr s, page')"
  shows "\<exists>es. py_iter data = Inr es \<and> length s \<le> length es \<and>
           (\<forall>r \<in> set s. \<exists>e \<in> set es. entry_time e = Inr (row_time r) \<and> entry_value e = Inr (row_value r))"
proof (cases "py_iter data")
  case (Inl e)
  with assms show ?thesis by (simp add: process_data_def)
next
  case (Inr es)
  from process_data_run [OF Inr, of page] assms
  have s: "s = series_of es" by (auto split: if_splits)
  have len: "length s \<le> length es"
    using length_points_le [of es] by (simp add: s series_of_length)
  have "\<exists>e \<in> set es. entry_time e = Inr (row_time r) \<and> entry_value e = Inr (row_value r)"
    if "r \<in> set s" for r
  proof -
    from that have "(row_time r, row_value r) \<in> set (map (\<lambda>r. (row_time r, row_value r)) (series_of es))"
      by (auto simp: s)
    then have "(row_time r, row_value r) \<in> set (parsed_points es)"
      by (simp only: series_of_points)
    then show ?thesis by (rule points_from_input)
  qed
  with len Inr show ?thesis by blast
qed

theorem no_fabrication_witness:
  "process_data (JArr [feed_record ''2024-01-01T00:00:02Z'' ''25.0'', feed_record ''yesterday'' ''1'']) []
     = (Inr [\<lparr>row_index = 0,
              row_time = \<lparr>year = 2024, month = 1, day = 1, hour = 0, minute = 0, second = 2,
                           microsecond = 0, tzinfo = Some 0\<rparr>,
              row_value = FNum 25\<rparr>],
        [StWarningSkipping (feed_record ''yesterday'' ''1'') ValueError])
   \<and> (\<exists>es. py_iter (JArr [feed_record ''2024-01-01T00:00:02Z'' ''25.0'', feed_record ''yesterday'' ''1''])
               = Inr es \<and> 1 \<le> length es)"
proof -
  have run: "process_data (JArr [feed_record ''2024-01-01T00:00:02Z'' ''25.0'', feed_record ''yesterday'' ''1'']) []
     = (Inr [\<lparr>row_index = 0,
              row_time = \<lparr>year = 2024, month = 1, day = 1, hour = 0, minute = 0, second = 2,
                           microsecond = 0, tzinfo = Some 0\<rparr>,
              row_value = FNum 25\<rparr>],
        [StWarningSkipping (feed_record ''yesterday'' ''1'') ValueError])"
    by code_simp
  from no_fabrication [OF run] obtain es where
    "py_iter (JArr [feed_record ''2024-01-01T00:00:02Z'' ''25.0'', feed_record ''yesterday'' ''1'']) = Inr es"
    and "length [\<lparr>row_index = 0,
              row_time = \<lparr>year = 2024, month = 1, day = 1, hour = 0, minute = 0, second = 2,
                           microsecond = 0, tzinfo = Some 0\<rparr>,
              row_value = FNum 25\<rparr>] \<le> length es"
    by blast
  with run show ?thesis by auto
qed

subsection \<open>The series is sorted by time\<close>

text \<open>
  C3 as stated: for every input whose timestamp and value parses all succeed, the output is
  sorted by timestamp. It fails on the input below, two records whose \<^verbatim>\<open>created_at\<close> ends
  in \<^verbatim>\<open>Z\<close>. Line 40 turns the date-only text \<^verbatim>\<open>2024-01-01Z\<close> into \<^verbatim>\<open>2024-01-01+00:00\<close>, which
  \<^verbatim>\<open>fromisoformat\<close> reads as the date, the separator \<^verbatim>\<open>+\<close> and the time \<^verbatim>\<open>00:00\<close>: a naive
  datetime. The second record parses to an aware one. Both values parse, and ordering the
  two timestamps raises \<^verbatim>\<open>TypeError\<close>, so there is no series.
\<close>

theorem mixed_awareness_counterexample:
  "entry_time (feed_record ''2024-01-01Z'' ''25.0'')
     = Inr \<lparr>year = 2024, month = 1, day = 1, hour = 0, minute = 0, second = 0,
             microsecond = 0, tzinfo = None\<rparr>
   \<and> entry_time (feed_record ''2024-01-01T00:00:01Z'' ''24.5'')
     = Inr \<lparr>year = 2024, month = 1, day = 1, hour = 0, minute = 0, second = 1,
             microsecond = 0, tzinfo = Some 0\<rparr>
   \<and> list_all parses [feed_record ''2024-01-01Z'' ''25.0'',
                      feed_record ''2024-01-01T00:00:01Z'' ''24.5'']
   \<and> process_data
        (JArr [feed_record ''2024-01-01Z'' ''25.0'',
               feed_record ''2024-01-01T00:00:01Z'' ''24.5'']) []
      = (Inl TypeError, [])"
  by code_simp

text \<open>
  C3, amended: for every list of records whose timestamp and value parses all succeed and
  whose parsed timestamps are all aware (each has an offset) or all naive (none has one),
  \<^verbatim>\<open>process_data\<close> returns a series with one row for each record and shows no warning, the
  rows are in ascending order of their instants (\<open>i < j\<close> implies
  \<open>series[i].time \<le> series[j].time\<close>), and the index labels are 0, 1, 2, ...; the two records
  of the spec, given out of order, come back in order.
\<close>

theorem sorted_series:
  "(list_all parses es \<and> \<not> mixed_awareness (parsed_times es) \<longrightarrow>
      (\<exists>s. process_data (JArr es) page = (Inr s, page)
         \<and> length s = length es
         \<and> (\<forall>i j. i < j \<and> j < length s \<longrightarrow>
               utc_instant (row_time (s ! i)) \<le> utc_instant (row_time (s ! j)))
         \<and> map row_index s = [0..<length s]))
   \<and> process_data
        (JArr [feed_record ''2024-01-01T00:00:02Z'' ''25.0'',
               feed_record ''2024-01-01T00:00:01Z'' ''24.5'']) []
      = (Inr [\<lparr>row_index = 0,
               row_time = \<lparr>year = 2024, month = 1, day = 1, hour = 0, minute = 0, second = 1,
                            microsecond = 0, tzinfo = Some 0\<rparr>,
               row_value = FNum (49 / 2)\<rparr>,
              \<lparr>row_index = 1,
               row_time = \<lparr>year = 2024, month = 1, day = 1, hour = 0, minute = 0, second = 2,
                            microsecond = 0, tzinfo = Some 0\<rparr>,
               row_value = FNum 25\<rparr>],
         [])"
proof (rule conjI)
  show "list_all parses es \<and> \<not> mixed_awareness (parsed_times es) \<longrightarrow>
      (\<exists>s. process_data (JArr es) page = (Inr s, page)
         \<and> length s = length es
         \<and> (\<forall>i j. i < j \<and> j < length s \<longrightarrow>
               utc_instant (row_time (s ! i)) \<le> utc_instant (row_time (s ! j)))
         \<and> map row_index s = [0..<length s])"
  proof
    assume a: "list_all parses es \<and> \<not> mixed_awareness (parsed_times es)"
    then have run: "process_data (JArr es) page = (Inr (series_of es), page)"
      by (simp add: process_data_all_parse)
    from a have "list_all parses es" by simp
    then have "length (parsed_points es) = length es"
      using points_all_parse [of es] by simp
    then have len: "length (series_of es) = length es"
      by (simp only: series_of_length)
    have nth: "\<forall>i j. i < j \<and> j < length (series_of es) \<longrightarrow>
        utc_instant (row_time (series_of es ! i)) \<le> utc_instant (row_time (series_of es ! j))"
    proof (intro allI impI)
      fix i j assume "i < j \<and> j < length (series_of es)"
      then show "utc_instant (row_time (series_of es ! i)) \<le> utc_instant (row_time (series_of es ! j))"
        using series_of_nth_mono [of i j es] by simp
    qed
    have lab: "map row_index (series_of es) = [0..<length (series_of es)]"
      by (rule series_of_labels)
    show "\<exists>s. process_data (JArr es) page = (Inr s, page)
         \<and> length s = length es
         \<and> (\<forall>i j. i < j \<and> j < length s \<longrightarrow>
               utc_instant (row_time (s ! i)) \<le> utc_instant (row_time (s ! j)))
         \<and> map row_index s = [0..<length s]"
      by (rule exI [of _ "series_of es"]) (intro conjI run len nth lab)
  qed
next
  show "process_data
        (JArr [feed_record ''2024-01-01T00:00:02Z'' ''25.0'',
               feed_record ''2024-01-01T00:00:01Z'' ''24.5'']) []
      = (Inr [\<lparr>row_index = 0,
               row_time = \<lparr>year = 2024, month = 1, day = 1, hour = 0, minute = 0, second = 1,
                            microsecond = 0, tzinfo = Some 0\<rparr>,
               row_value = FNum (49 / 2)\<rparr>,
              \<lparr>row_index = 1,
               row_time = \<lparr>year = 2024, month = 1, day = 1, hour = 0, minute = 0, second = 2,
                            microsecond = 0, tzinfo = Some 0\<rparr>,
               row_value = FNum 25\<rparr>],
         [])"
    by code_simp
qed

theorem sorted_series_witness:
  "list_all parses [feed_record ''2024-01-01T00:00:02+00:00'' ''1e3'',
                    feed_record ''2024-01-01T05:29:00+05:30'' '' 7 '']
   \<and> \<not> mixed_awareness (parsed_times [feed_record ''2024-01-01T00:00:02+00:00'' ''1e3'',
                    feed_record ''2024-01-01T05:29:00+05:30'' '' 7 ''])
   \<and> (\<exists>s. process_data (JArr [feed_record ''2024-01-01T00:00:02+00:00'' ''1e3'',
                    feed_record ''2024-01-01T05:29:00+05:30'' '' 7 '']) [] = (Inr s, [])
         \<and> length s = 2
         \<and> map row_index s = [0..<length s])"
proof -
  have h: "list_all parses [feed_record ''2024-01-01T00:00:02+00:00'' ''1e3'',
                    feed_record ''2024-01-01T05:29:00+05:30'' '' 7 '']
   \<and> \<not> mixed_awareness (parsed_times [feed_record ''2024-01-01T00:00:02+00:00'' ''1e3'',
                    feed_record ''2024-01-01T05:29:00+05:30'' '' 7 ''])"
    by code_simp
  from sorted_series [of "[feed_record ''2024-01-01T00:00:02+00:00'' ''1e3'',
                    feed_record ''2024-01-01T05:29:00+05:30'' '' 7 '']" "[]"] h
  show ?thesis by auto
qed

subsection \<open>A record whose value does not parse\<close>

text \<open>
  C2 says that a record whose timestamp or value fails to parse is skipped and the rest is
  normalised. Evaluated on two records, the first with the value \<^verbatim>\<open>"N/A"\<close>: line 41 has
  already appended the timestamp when line 42 raises, the two lists end with lengths 2 and
  1, and the frame constructor raises \<^verbatim>\<open>ValueError\<close>. Nothing is normalised.
  (\<open>half_parsed_aborts\<close> above is the same for any input with such a record.)
\<close>

theorem half_parsed_record_aborts:
  "process_data
     (JArr [feed_record ''2024-01-01T00:00:00Z'' ''N/A'',
            feed_record ''2024-01-01T00:00:01Z'' ''24.5'']) []
   = (Inl ValueError, [StWarningSkipping (feed_record ''2024-01-01T00:00:00Z'' ''N/A'') ValueError])"
  by code_simp

subsection \<open>Empty and null input\<close>

text \<open>
  C4 as stated: normalizing a null input returns an empty series and raises no error. It
  fails: \<^verbatim>\<open>process_data(None)\<close> raises \<^verbatim>\<open>TypeError\<close> at the \<^verbatim>\<open>for\<close> of line 38, since \<^verbatim>\<open>None\<close>
  is not iterable.
\<close>

theorem null_input_raises_counterexample:
  "process_data JNull [] = (Inl TypeError, [])"
  by (simp add: process_data_def)

text \<open>
  C4, amended: normalizing the empty list gives the empty series, with no error and nothing
  shown. A null input is not normalized: \<^verbatim>\<open>process_data\<close> raises \<^verbatim>\<open>TypeError\<close> on it, and the
  caller never passes it, since lines 86 and 87 call \<^verbatim>\<open>process_data(raw or [])\<close>, where
  \<^verbatim>\<open>None or []\<close> is the empty list (and line 82 has returned before when a fetch gave \<^verbatim>\<open>None\<close>).
\<close>

theorem empty_input_normalizes:
  "process_data (JArr []) page = (Inr [], page)
   \<and> process_data JNull page = (Inl TypeError, page)
   \<and> or_empty_list JNull = JArr []
   \<and> process_data (or_empty_list JNull) page = (Inr [], page)"
  by (simp add: process_data_def or_empty_list_def DataFrame_def sort_values_time_def
        mixed_awareness_def reset_index_def)

subsection \<open>A trailing Z is offset zero\<close>

text \<open>
  C6. The \<^verbatim>\<open>created_at\<close> text \<^verbatim>\<open>"2024-01-01T00:00:00Z"\<close> parses to the aware datetime
  2024-01-01T00:00:00 with UTC offset zero, the same value as the text
  \<^verbatim>\<open>"2024-01-01T00:00:00+00:00"\<close> gives, and that is the time of the row it normalises to.
  In general a text with one \<^verbatim>\<open>Z\<close>, at its end, parses as the text with \<^verbatim>\<open>+00:00\<close> in its
  place.
\<close>

theorem trailing_Z_is_utc:
  "entry_time (feed_record ''2024-01-01T00:00:00Z'' v)
     = Inr \<lparr>year = 2024, month = 1, day = 1, hour = 0, minute = 0, second = 0,
             microsecond = 0, tzinfo = Some 0\<rparr>
   \<and> entry_time (feed_record ''2024-01-01T00:00:00Z'' v)
     = fromisoformat ''2024-01-01T00:00:00+00:00''
   \<and> (CHR ''Z'' \<notin> set s \<longrightarrow>
        entry_time (feed_record (s @ ''Z'') v) = fromisoformat (s @ ''+00:00''))
   \<and> process_data (JArr [feed_record ''2024-01-01T00:00:00Z'' ''25.0'']) []
     = (Inr [\<lparr>row_index = 0,
              row_time = \<lparr>year = 2024, month = 1, day = 1, hour = 0, minute = 0, second = 0,
                           microsecond = 0, tzinfo = Some 0\<rparr>,
              row_value = FNum 25\<rparr>], [])"
proof (intro conjI impI)
  have r: "replace_char CHR ''Z'' ''+00:00'' ''2024-01-01T00:00:00Z'' = ''2024-01-01T00:00:00+00:00''"
    by (simp add: replace_char_def)
  have f: "fromisoformat ''2024-01-01T00:00:00+00:00''
     = Inr \<lparr>year = 2024, month = 1, day = 1, hour = 0, minute = 0, second = 0,
             microsecond = 0, tzinfo = Some 0\<rparr>"
    by code_simp
  show "entry_time (feed_record ''2024-01-01T00:00:00Z'' v)
     = Inr \<lparr>year = 2024, month = 1, day = 1, hour = 0, minute = 0, second = 0,
             microsecond = 0, tzinfo = Some 0\<rparr>"
    by (simp only: entry_time_feed_record r f)
  show "entry_time (feed_record ''2024-01-01T00:00:00Z'' v)
     = fromisoformat ''2024-01-01T00:00:00+00:00''"
    by (simp only: entry_time_feed_record r)
  show "entry_time (feed_record (s @ ''Z'') v) = fromisoformat (s @ ''+00:00'')"
    if "CHR ''Z'' \<notin> set s"
    using that by (simp add: entry_time_feed_record replace_char_append replace_char_absent)
       (simp add: replace_char_def)
  show "process_data (JArr [feed_record ''2024-01-01T00:00:00Z'' ''25.0'']) []
     = (Inr [\<lparr>row_index = 0,
              row_time = \<lparr>year = 2024, month = 1, day = 1, hour = 0, minute = 0, second = 0,
                           microsecond = 0, tzinfo = Some 0\<rparr>,
              row_value = FNum 25\<rparr>], [])"
    by code_simp
qed

theorem trailing_Z_is_utc_witness:
  "CHR ''Z'' \<notin> set ''2024-06-30T12:00:00''
   \<and> entry_time (feed_record ''2024-06-30T12:00:00Z'' ''1'')
     = Inr \<lparr>year = 2024, month = 6, day = 30, hour = 12, minute = 0, second = 0,
             microsecond = 0, tzinfo = Some 0\<rparr>"
proof -
  have h: "CHR ''Z'' \<notin> set ''2024-06-30T12:00:00''" by simp
  have f: "fromisoformat (''2024-06-30T12:00:00'' @ ''+00:00'')
     = Inr \<lparr>year = 2024, month = 6, day = 30, hour = 12, minute = 0, second = 0,
             microsecond = 0, tzinfo = Some 0\<rparr>"
    by code_simp
  from trailing_Z_is_utc [of "''1''" "''2024-06-30T12:00:00''"] h
  have "entry_time (feed_record (''2024-06-30T12:00:00'' @ ''Z'') ''1'')
        = fromisoformat (''2024-06-30T12:00:00'' @ ''+00:00'')"
    by blast
  with f h show ?thesis by simp
qed

subsection \<open>What \<^verbatim>\<open>float\<close> accepts\<close>

text \<open>
  C10. The value texts \<^verbatim>\<open>"nan"\<close>, \<^verbatim>\<open>"inf"\<close> and \<^verbatim>\<open>"-Infinity"\<close> parse (to not-a-number and
  the two infinities), a numeric text padded with whitespace parses to the number (for any
  text, whitespace on either side changes nothing), and records with such values are kept in
  the series, which then holds non-finite values.
\<close>

theorem float_literals_accepted:
  "py_float (JStr ''nan'') = Inr FNan
   \<and> py_float (JStr ''inf'') = Inr (FInf False)
   \<and> py_float (JStr ''-Infinity'') = Inr (FInf True)
   \<and> py_float (JStr '' 25.0 '') = Inr (FNum 25)
   \<and> (list_all is_space a \<and> list_all is_space b \<longrightarrow>
        py_float (JStr (a @ s @ b)) = py_float (JStr s))
   \<and> process_data
        (JArr [feed_record ''2024-01-01T00:00:01Z'' ''nan'',
               feed_record ''2024-01-01T00:00:02Z'' ''inf'',
               feed_record ''2024-01-01T00:00:03Z'' ''-Infinity'',
               feed_record ''2024-01-01T00:00:04Z'' '' 25.0 '']) []
     = (Inr [\<lparr>row_index = 0,
              row_time = \<lparr>year = 2024, month = 1, day = 1, hour = 0, minute = 0, second = 1,
                           microsecond = 0, tzinfo = Some 0\<rparr>,
              row_value = FNan\<rparr>,
             \<lparr>row_index = 1,
              row_time = \<lparr>year = 2024, month = 1, day = 1, hour = 0, minute = 0, second = 2,
                           microsecond = 0, tzinfo = Some 0\<rparr>,
              row_value = FInf False\<rparr>,
             \<lparr>row_index = 2,
              row_time = \<lparr>year = 2024, month = 1, day = 1, hour = 0, minute = 0, second = 3,
                           microsecond = 0, tzinfo = Some 0\<rparr>,
              row_value = FInf True\<rparr>,
             \<lparr>row_index = 3,
              row_time = \<lparr>year = 2024, month = 1, day = 1, hour = 0, minute = 0, second = 4,
                           microsecond = 0, tzinfo = Some 0\<rparr>,
              row_value = FNum 25\<rparr>], [])"
proof (intro conjI impI)
  show "py_float (JStr ''nan'') = Inr FNan" by code_simp
  show "py_float (JStr ''inf'') = Inr (FInf False)" by code_simp
  show "py_float (JStr ''-Infinity'') = Inr (FInf True)" by code_simp
  show "py_float (JStr '' 25.0 '') = Inr (FNum 25)" by code_simp
  show "py_float (JStr (a @ s @ b)) = py_float (JStr s)"
    if "list_all is_space a \<and> list_all is_space b"
    using that by (simp add: float_of_str_def strip_padding)
  show "process_data
        (JArr [feed_record ''2024-01-01T00:00:01Z'' ''nan'',
               feed_record ''2024-01-01T00:00:02Z'' ''inf'',
               feed_record ''2024-01-01T00:00:03Z'' ''-Infinity'',
               feed_record ''2024-01-01T00:00:04Z'' '' 25.0 '']) []
     = (Inr [\<lparr>row_index = 0,
              row_time = \<lparr>year = 2024, month = 1, day = 1, hour = 0, minute = 0, second = 1,
                           microsecond = 0, tzinfo = Some 0\<rparr>,
              row_value = FNan\<rparr>,
             \<lparr>row_index = 1,
              row_time = \<lparr>year = 2024, month = 1, day = 1, hour = 0, minute = 0, second = 2,
                           microsecond = 0, tzinfo = Some 0\<rparr>,
              row_value = FInf False\<rparr>,
             \<lparr>row_index = 2,
              row_time = \<lparr>year = 2024, month = 1, day = 1, hour = 0, minute = 0, second = 3,
                           microsecond = 0, tzinfo = Some 0\<rparr>,
              row_value = FInf True\<rparr>,
             \<lparr>row_index = 3,
              row_time = \<lparr>year = 2024, month = 1, day = 1, hour = 0, minute = 0, second = 4,
                           microsecond = 0, tzinfo = Some 0\<rparr>,
              row_value = FNum 25\<rparr>], [])"
    by code_simp
qed

theorem float_literals_accepted_witness:
  "list_all is_space [CHR 0x09, CHR '' ''] \<and> list_all is_space [CHR 0x0A]
   \<and> py_float (JStr ([CHR 0x09, CHR '' ''] @ ''-1.5e2'' @ [CHR 0x0A])) = Inr (FNum (- 150))"
proof -
  have h: "list_all is_space [CHR 0x09, CHR '' ''] \<and> list_all is_space [CHR 0x0A]"
    by code_simp
  have v: "py_float (JStr ''-1.5e2'') = Inr (FNum (- 150))" by code_simp
  from float_literals_accepted [of "[CHR 0x09, CHR '' '']" "[CHR 0x0A]" "''-1.5e2''"] h
  have "py_float (JStr ([CHR 0x09, CHR '' ''] @ ''-1.5e2'' @ [CHR 0x0A])) = py_float (JStr ''-1.5e2'')"
    by blast
  with h v show ?thesis by simp
qed

subsection \<open>What the fetcher catches\<close>

text \<open>
  C5 as stated: the fetcher never raises an uncaught exception, and a non-success status
  gives the null result. It fails on two inputs. A reply with status 200 whose body is nested
  too deeply for the decoder makes \<^verbatim>\<open>response.json()\<close> raise \<^verbatim>\<open>RecursionError\<close>, which is not a
  \<^verbatim>\<open>RequestException\<close>: line 31 does not catch it and it leaves \<^verbatim>\<open>get_feed_data\<close>, cached or
  not. A reply with status 304 and a JSON body passes \<^verbatim>\<open>raise_for_status\<close>, and the body is
  returned as a result with nothing shown.
\<close>

theorem fetcher_uncaught_counterexample:
  "get_feed_data_body example_config (net_reply 200 ''OK'' (Inl RecursionError))
         ''temperature'' 500 example_world
     = (Inl RecursionError,
        example_world\<lparr>w_sent := [request_for example_config ''temperature'' 500]\<rparr>)
   \<and> fst (get_feed_data example_config (net_reply 200 ''OK'' (Inl RecursionError)) 0
              ''temperature'' None example_world)
     = Inl RecursionError
   \<and> get_feed_data_body example_config (net_reply 304 ''Not Modified'' (Inr example_data))
         ''temperature'' 500 example_world
     = (Inr example_data,
        example_world\<lparr>w_sent := [request_for example_config ''temperature'' 500]\<rparr>)"
  by (simp add: get_feed_data_def cache_lookup_def example_world_def get_feed_data_body_def
        try_block_def net_reply_def raise_for_status_def response_json_def Let_def)

text \<open>
  C5, amended: for every feed key and limit, the fetcher catches every \<^verbatim>\<open>RequestException\<close>
  of its \<^verbatim>\<open>try\<close> block. When the transport fails, when the status is from 400 to 599 (what
  \<^verbatim>\<open>raise_for_status\<close> rejects) or when the body is not JSON, it shows
  \<^verbatim>\<open>Error fetching data for <feed>: <cause>\<close> and returns \<^verbatim>\<open>None\<close>, the same null result in
  the three cases; for any other status with a body that decodes it returns the decoded body
  and shows nothing. An exception of another class is not caught: it leaves the function,
  with nothing shown. So no \<^verbatim>\<open>RequestException\<close> ever leaves \<^verbatim>\<open>get_feed_data\<close>, cached or not.
\<close>

theorem fetcher_catches_request_exceptions:
  "(try_block net (request_for cfg feed_key lmt) = Inl (RequestException k msg) \<longrightarrow>
        get_feed_data_body cfg net feed_key lmt w
          = (Inr JNull,
             w\<lparr>w_sent := w_sent w @ [request_for cfg feed_key lmt],
               w_page := w_page w @ [StError (''Error fetching data for '' @ feed_key @ '': '' @ msg)]\<rparr>))
   \<and> (net (request_for cfg feed_key lmt) = NoResponse msg \<longrightarrow>
        get_feed_data_body cfg net feed_key lmt w
          = (Inr JNull,
             w\<lparr>w_sent := w_sent w @ [request_for cfg feed_key lmt],
               w_page := w_page w @ [StError (''Error fetching data for '' @ feed_key @ '': '' @ msg)]\<rparr>))
   \<and> (net (request_for cfg feed_key lmt) = Response r
          \<and> 400 \<le> status_code r \<and> status_code r < 600 \<longrightarrow>
        get_feed_data_body cfg net feed_key lmt w
          = (Inr JNull,
             w\<lparr>w_sent := w_sent w @ [request_for cfg feed_key lmt],
               w_page := w_page w @ [StError (''Error fetching data for '' @ feed_key @ '': '' @ 
                 http_error_msg (if status_code r < 500 then ''Client Error'' else ''Server Error'') r)]\<rparr>))
   \<and> (net (request_for cfg feed_key lmt) = Response r
          \<and> \<not> (400 \<le> status_code r \<and> status_code r < 600)
          \<and> body r = Inl (RequestException JSONDecodeError msg) \<longrightarrow>
        get_feed_data_body cfg net feed_key lmt w
          = (Inr JNull,
             w\<lparr>w_sent := w_sent w @ [request_for cfg feed_key lmt],
               w_page := w_page w @ [StError (''Error fetching data for '' @ feed_key @ '': '' @ msg)]\<rparr>))
   \<and> (net (request_for cfg feed_key lmt) = Response r
          \<and> \<not> (400 \<le> status_code r \<and> status_code r < 600) \<and> body r = Inr d \<longrightarrow>
        get_feed_data_body cfg net feed_key lmt w
          = (Inr d, w\<lparr>w_sent := w_sent w @ [request_for cfg feed_key lmt]\<rparr>))
   \<and> (try_block net (request_for cfg feed_key lmt) = Inl e \<and> \<not> is_RequestException e \<longrightarrow>
        get_feed_data_body cfg net feed_key lmt w
          = (Inl e, w\<lparr>w_sent := w_sent w @ [request_for cfg feed_key lmt]\<rparr>))
   \<and> fst (get_feed_data cfg net now feed_key limit w) \<noteq> Inl (RequestException k msg)"
proof (intro conjI impI)
  assume "try_block net (request_for cfg feed_key lmt) = Inl (RequestException k msg)"
  then show "get_feed_data_body cfg net feed_key lmt w
          = (Inr JNull,
             w\<lparr>w_sent := w_sent w @ [request_for cfg feed_key lmt],
               w_page := w_page w @ [StError (''Error fetching data for '' @ feed_key @ '': '' @ msg)]\<rparr>)"
    by (rule body_failure)
next
  assume "net (request_for cfg feed_key lmt) = NoResponse msg"
  then have "try_block net (request_for cfg feed_key lmt) = Inl (RequestException ConnectionError msg)"
    by (simp add: try_block_def)
  then show "get_feed_data_body cfg net feed_key lmt w
          = (Inr JNull,
             w\<lparr>w_sent := w_sent w @ [request_for cfg feed_key lmt],
               w_page := w_page w @ [StError (''Error fetching data for '' @ feed_key @ '': '' @ msg)]\<rparr>)"
    by (rule body_failure)
next
  assume a: "net (request_for cfg feed_key lmt) = Response r
          \<and> 400 \<le> status_code r \<and> status_code r < 600"
  then have "raise_for_status r = Inl (RequestException HTTPError
      (http_error_msg (if status_code r < 500 then ''Client Error'' else ''Server Error'') r))"
    by (intro raise_for_status_error) simp_all
  with a have "try_block net (request_for cfg feed_key lmt) = Inl (RequestException HTTPError
      (http_error_msg (if status_code r < 500 then ''Client Error'' else ''Server Error'') r))"
    by (simp add: try_block_def)
  then show "get_feed_data_body cfg net feed_key lmt w
          = (Inr JNull,
             w\<lparr>w_sent := w_sent w @ [request_for cfg feed_key lmt],
               w_page := w_page w @ [StError (''Error fetching data for '' @ feed_key @ '': '' @ 
                 http_error_msg (if status_code r < 500 then ''Client Error'' else ''Server Error'') r)]\<rparr>)"
    by (rule body_failure)
next
  assume a: "net (request_for cfg feed_key lmt) = Response r
          \<and> \<not> (400 \<le> status_code r \<and> status_code r < 600)
          \<and> body r = Inl (RequestException JSONDecodeError msg)"
  then have "raise_for_status r = Inr ()" by (intro raise_for_status_ok) simp
  with a have "try_block net (request_for cfg feed_key lmt) = Inl (RequestException JSONDecodeError msg)"
    by (simp add: try_block_def response_json_def)
  then show "get_feed_data_body cfg net feed_key lmt w
          = (Inr JNull,
             w\<lparr>w_sent := w_sent w @ [request_for cfg feed_key lmt],
               w_page := w_page w @ [StError (''Error fetching data for '' @ feed_key @ '': '' @ msg)]\<rparr>)"
    by (rule body_failure)
next
  assume a: "net (request_for cfg feed_key lmt) = Response r
          \<and> \<not> (400 \<le> status_code r \<and> status_code r < 600) \<and> body r = Inr d"
  then have "raise_for_status r = Inr ()" by (intro raise_for_status_ok) simp
  with a have "try_block net (request_for cfg feed_key lmt) = Inr d"
    by (simp add: try_block_def response_json_def)
  then show "get_feed_data_body cfg net feed_key lmt w
          = (Inr d, w\<lparr>w_sent := w_sent w @ [request_for cfg feed_key lmt]\<rparr>)"
    by (rule body_success)
next
  assume a: "try_block net (request_for cfg feed_key lmt) = Inl e \<and> \<not> is_RequestException e"
  then have 1: "try_block net (request_for cfg feed_key lmt) = Inl e"
    and 2: "\<not> is_RequestException e" by simp_all
  from 1 2 show "get_feed_data_body cfg net feed_key lmt w
          = (Inl e, w\<lparr>w_sent := w_sent w @ [request_for cfg feed_key lmt]\<rparr>)"
    by (rule body_uncaught)
next
  show "fst (get_feed_data cfg net now feed_key limit w) \<noteq> Inl (RequestException k msg)"
  proof (cases "cache_lookup now w (feed_key, limit)")
    case (Some ent)
    then show ?thesis by (simp add: get_feed_data_def)
  next
    case None
    then have "fst (get_feed_data cfg net now feed_key limit w)
        = fst (get_feed_data_body cfg net feed_key (case limit of None \<Rightarrow> LIMIT | Some l \<Rightarrow> l) w)"
      using miss_runs_body by blast
    then show ?thesis by (simp add: body_no_RequestException)
  qed
qed

theorem fetcher_catches_request_exceptions_witness:
  "get_feed_data_body example_config (\<lambda>req. Raises (RequestException ConnectionError ''Read timed out'')) ''temperature'' 500 example_world
     = (Inr JNull,
        example_world\<lparr>w_sent := [request_for example_config ''temperature'' 500],
          w_page := [StError ''Error fetching data for temperature: Read timed out'']\<rparr>)
   \<and> w_page (snd (get_feed_data_body example_config net_down ''temperature'' 500 example_world))
     = [StError ''Error fetching data for temperature: Connection refused'']
   \<and> w_page (snd (get_feed_data_body example_config (net_reply 404 ''Not Found'' (Inr (JObj [(''error'', JStr ''not found'')])))
                     ''temperature'' 500 example_world))
     = [StError ''Error fetching data for temperature: 404 Client Error: Not Found for url: https://io.adafruit.com/api/v2/emon4075/feeds/temperature/data'']
   \<and> get_feed_data_body example_config (net_reply 200 ''OK'' (Inl (RequestException JSONDecodeError ''Expecting value'')))
         ''temperature'' 500 example_world
     = (Inr JNull,
        example_world\<lparr>w_sent := [request_for example_config ''temperature'' 500],
          w_page := [StError ''Error fetching data for temperature: Expecting value'']\<rparr>)
   \<and> get_feed_data_body example_config (net_reply 200 ''OK'' (Inr example_data))
         ''temperature'' 500 example_world
     = (Inr example_data,
        example_world\<lparr>w_sent := [request_for example_config ''temperature'' 500]\<rparr>)
   \<and> get_feed_data_body example_config (net_reply 200 ''OK'' (Inl ValueError))
         ''temperature'' 500 example_world
     = (Inl ValueError,
        example_world\<lparr>w_sent := [request_for example_config ''temperature'' 500]\<rparr>)"
proof (intro conjI)
  have "try_block (\<lambda>req. Raises (RequestException ConnectionError ''Read timed out'')) (request_for example_config ''temperature'' 500)
          = Inl (RequestException ConnectionError ''Read timed out'')"
    by (simp add: try_block_def)
  with fetcher_catches_request_exceptions [where cfg = example_config and net = "(\<lambda>req. Raises (RequestException ConnectionError ''Read timed out''))"
        and feed_key = "''temperature''" and w = example_world and lmt = 500
        and k = ConnectionError and msg = "''Read timed out''"]
  show "get_feed_data_body example_config (\<lambda>req. Raises (RequestException ConnectionError ''Read timed out'')) ''temperature'' 500 example_world
     = (Inr JNull,
        example_world\<lparr>w_sent := [request_for example_config ''temperature'' 500],
          w_page := [StError ''Error fetching data for temperature: Read timed out'']\<rparr>)"
    by (simp add: example_world_def)
next
  have "net_down (request_for example_config ''temperature'' 500) = NoResponse ''Connection refused''"
    by (simp add: net_down_def)
  with fetcher_catches_request_exceptions [where cfg = example_config and net = net_down
        and feed_key = "''temperature''" and w = example_world and lmt = 500
        and msg = "''Connection refused''"]
  show "w_page (snd (get_feed_data_body example_config net_down ''temperature'' 500 example_world))
     = [StError ''Error fetching data for temperature: Connection refused'']"
    by (simp add: example_world_def)
next
  have "net_reply 404 ''Not Found'' (Inr (JObj [(''error'', JStr ''not found'')])) (request_for example_config ''temperature'' 500)
          = Response \<lparr>status_code = 404, reason = ''Not Found'',
          url = req_url (request_for example_config ''temperature'' 500), body = Inr (JObj [(''error'', JStr ''not found'')])\<rparr>
        \<and> 400 \<le> status_code \<lparr>status_code = 404, reason = ''Not Found'',
          url = req_url (request_for example_config ''temperature'' 500), body = Inr (JObj [(''error'', JStr ''not found'')])\<rparr>
        \<and> status_code \<lparr>status_code = 404, reason = ''Not Found'',
          url = req_url (request_for example_config ''temperature'' 500), body = Inr (JObj [(''error'', JStr ''not found'')])\<rparr> < 600"
    by (simp add: net_reply_def)
  with fetcher_catches_request_exceptions [where cfg = example_config
        and net = "net_reply 404 ''Not Found'' (Inr (JObj [(''error'', JStr ''not found'')]))"
        and feed_key = "''temperature''" and w = example_world and lmt = 500
        and r = "\<lparr>status_code = 404, reason = ''Not Found'',
          url = req_url (request_for example_config ''temperature'' 500), body = Inr (JObj [(''error'', JStr ''not found'')])\<rparr>"]
  have "get_feed_data_body example_config (net_reply 404 ''Not Found'' (Inr (JObj [(''error'', JStr ''not found'')])))
                     ''temperature'' 500 example_world
     = (Inr JNull,
        example_world\<lparr>w_sent := w_sent example_world @ [request_for example_config ''temperature'' 500],
          w_page := w_page example_world @ [StError (''Error fetching data for '' @ ''temperature'' @ '': ''
            @ http_error_msg (if status_code \<lparr>status_code = 404, reason = ''Not Found'',
          url = req_url (request_for example_config ''temperature'' 500), body = Inr (JObj [(''error'', JStr ''not found'')])\<rparr> < 500 then ''Client Error'' else ''Server Error'') \<lparr>status_code = 404, reason = ''Not Found'',
          url = req_url (request_for example_config ''temperature'' 500), body = Inr (JObj [(''error'', JStr ''not found'')])\<rparr>)]\<rparr>)"
    by blast
  then show "w_page (snd (get_feed_data_body example_config (net_reply 404 ''Not Found'' (Inr (JObj [(''error'', JStr ''not found'')])))
                     ''temperature'' 500 example_world))
     = [StError ''Error fetching data for temperature: 404 Client Error: Not Found for url: https://io.adafruit.com/api/v2/emon4075/feeds/temperature/data'']"
    by (simp add: example_world_def example_config_def http_error_msg_def request_for_def
          str_nat_404 del: str_nat.simps)
next
  have "net_reply 200 ''OK'' (Inl (RequestException JSONDecodeError ''Expecting value'')) (request_for example_config ''temperature'' 500)
          = Response \<lparr>status_code = 200, reason = ''OK'',
          url = req_url (request_for example_config ''temperature'' 500), body = Inl (RequestException JSONDecodeError ''Expecting value'')\<rparr>
        \<and> \<not> (400 \<le> status_code \<lparr>status_code = 200, reason = ''OK'',
          url = req_url (request_for example_config ''temperature'' 500), body = Inl (RequestException JSONDecodeError ''Expecting value'')\<rparr>
             \<and> status_code \<lparr>status_code = 200, reason = ''OK'',
          url = req_url (request_for example_config ''temperature'' 500), body = Inl (RequestException JSONDecodeError ''Expecting value'')\<rparr> < 600)
        \<and> body \<lparr>status_code = 200, reason = ''OK'',
          url = req_url (request_for example_config ''temperature'' 500), body = Inl (RequestException JSONDecodeError ''Expecting value'')\<rparr> = Inl (RequestException JSONDecodeError ''Expecting value'')"
    by (simp add: net_reply_def)
  with fetcher_catches_request_exceptions [where cfg = example_config
        and net = "net_reply 200 ''OK'' (Inl (RequestException JSONDecodeError ''Expecting value''))"
        and feed_key = "''temperature''" and w = example_world and lmt = 500
        and msg = "''Expecting value''"
        and r = "\<lparr>status_code = 200, reason = ''OK'',
          url = req_url (request_for example_config ''temperature'' 500), body = Inl (RequestException JSONDecodeError ''Expecting value'')\<rparr>"]
  show "get_feed_data_body example_config (net_reply 200 ''OK'' (Inl (RequestException JSONDecodeError ''Expecting value'')))
         ''temperature'' 500 example_world
     = (Inr JNull,
        example_world\<lparr>w_sent := [request_for example_config ''temperature'' 500],
          w_page := [StError ''Error fetching data for temperature: Expecting value'']\<rparr>)"
    by (simp add: example_world_def)
next
  have "net_reply 200 ''OK'' (Inr example_data) (request_for example_config ''temperature'' 500)
          = Response \<lparr>status_code = 200, reason = ''OK'',
          url = req_url (request_for example_config ''temperature'' 500), body = Inr example_data\<rparr>
        \<and> \<not> (400 \<le> status_code \<lparr>status_code = 200, reason = ''OK'',
          url = req_url (request_for example_config ''temperature'' 500), body = Inr example_data\<rparr>
             \<and> status_code \<lparr>status_code = 200, reason = ''OK'',
          url = req_url (request_for example_config ''temperature'' 500), body = Inr example_data\<rparr> < 600)
        \<and> body \<lparr>status_code = 200, reason = ''OK'',
          url = req_url (request_for example_config ''temperature'' 500), body = Inr example_data\<rparr> = Inr example_data"
    by (simp add: net_reply_def)
  with fetcher_catches_request_exceptions [where cfg = example_config
        and net = "net_reply 200 ''OK'' (Inr example_data)"
        and feed_key = "''temperature''" and w = example_world and lmt = 500
        and r = "\<lparr>status_code = 200, reason = ''OK'',
          url = req_url (request_for example_config ''temperature'' 500), body = Inr example_data\<rparr>" and d = example_data]
  show "get_feed_data_body example_config (net_reply 200 ''OK'' (Inr example_data))
         ''temperature'' 500 example_world
     = (Inr example_data,
        example_world\<lparr>w_sent := [request_for example_config ''temperature'' 500]\<rparr>)"
    by (simp add: example_world_def)
next
  have "try_block (net_reply 200 ''OK'' (Inl ValueError)) (request_for example_config ''temperature'' 500)
          = Inl ValueError
        \<and> \<not> is_RequestException ValueError"
    by (simp add: try_block_def net_reply_def raise_for_status_def response_json_def)
  with fetcher_catches_request_exceptions [where cfg = example_config
        and net = "net_reply 200 ''OK'' (Inl ValueError)"
        and feed_key = "''temperature''" and w = example_world and lmt = 500
        and e = ValueError]
  show "get_feed_data_body example_config (net_reply 200 ''OK'' (Inl ValueError))
         ''temperature'' 500 example_world
     = (Inl ValueError,
        example_world\<lparr>w_sent := [request_for example_config ''temperature'' 500]\<rparr>)"
    by (simp add: example_world_def)
qed

subsection \<open>The request\<close>

text \<open>
  C8. Whatever the network answers, the body of \<^verbatim>\<open>get_feed_data\<close> sends exactly one request:
  a GET of \<^verbatim>\<open>https://io.adafruit.com/api/v2/{username}/feeds/{feed_key}/data\<close> with the header
  \<^verbatim>\<open>X-AIO-Key\<close> set to the API key and the query parameter \<^verbatim>\<open>limit\<close> set to the given
  count; a call that is not served from the cache sends it with the given limit, or with 500
  when the limit is omitted.
\<close>

theorem request_shape:
  "w_sent (snd (get_feed_data_body cfg net feed_key lmt w))
     = w_sent w @
       [\<lparr>req_method = ''GET'',
         req_url = ''https://io.adafruit.com/api/v2/'' @ AIO_USERNAME cfg @ ''/feeds/'' @ feed_key @ ''/data'',
         req_headers = [(''X-AIO-Key'', AIO_KEY cfg)],
         req_params = [(''limit'', lmt)]\<rparr>]
   \<and> (cache_lookup now w (feed_key, limit) = None \<longrightarrow>
        w_sent (snd (get_feed_data cfg net now feed_key limit w))
          = w_sent w @
            [\<lparr>req_method = ''GET'',
              req_url = ''https://io.adafruit.com/api/v2/'' @ AIO_USERNAME cfg @ ''/feeds/'' @ feed_key @ ''/data'',
              req_headers = [(''X-AIO-Key'', AIO_KEY cfg)],
              req_params = [(''limit'', case limit of None \<Rightarrow> 500 | Some l \<Rightarrow> l)]\<rparr>])"
proof (intro conjI impI)
  show "w_sent (snd (get_feed_data_body cfg net feed_key lmt w))
     = w_sent w @
       [\<lparr>req_method = ''GET'',
         req_url = ''https://io.adafruit.com/api/v2/'' @ AIO_USERNAME cfg @ ''/feeds/'' @ feed_key @ ''/data'',
         req_headers = [(''X-AIO-Key'', AIO_KEY cfg)],
         req_params = [(''limit'', lmt)]\<rparr>]"
    by (simp add: body_sent request_for_def)
next
  assume "cache_lookup now w (feed_key, limit) = None"
  then have "w_sent (snd (get_feed_data cfg net now feed_key limit w))
     = w_sent w @ [request_for cfg feed_key (case limit of None \<Rightarrow> LIMIT | Some l \<Rightarrow> l)]"
    using miss_runs_body by blast
  then show "w_sent (snd (get_feed_data cfg net now feed_key limit w))
          = w_sent w @
            [\<lparr>req_method = ''GET'',
              req_url = ''https://io.adafruit.com/api/v2/'' @ AIO_USERNAME cfg @ ''/feeds/'' @ feed_key @ ''/data'',
              req_headers = [(''X-AIO-Key'', AIO_KEY cfg)],
              req_params = [(''limit'', case limit of None \<Rightarrow> 500 | Some l \<Rightarrow> l)]\<rparr>]"
    by (simp add: request_for_def LIMIT_def split: option.splits)
qed

theorem request_shape_witness:
  "cache_lookup 0 example_world (''temperature'', None) = None
   \<and> w_sent (snd (get_feed_data example_config net_down 0 ''temperature'' None example_world))
     = [\<lparr>req_method = ''GET'',
         req_url = ''https://io.adafruit.com/api/v2/emon4075/feeds/temperature/data'',
         req_headers = [(''X-AIO-Key'', Some ''secret'')],
         req_params = [(''limit'', 500)]\<rparr>]"
proof -
  have h: "cache_lookup 0 example_world (''temperature'', None) = None"
    by (simp add: cache_lookup_def example_world_def)
  from request_shape [of example_config net_down "''temperature''" 500 example_world 0 None] h
  have "w_sent (snd (get_feed_data example_config net_down 0 ''temperature'' None example_world))
          = w_sent example_world @
            [\<lparr>req_method = ''GET'',
              req_url = ''https://io.adafruit.com/api/v2/'' @ AIO_USERNAME example_config @ ''/feeds/'' @ ''temperature'' @ ''/data'',
              req_headers = [(''X-AIO-Key'', AIO_KEY example_config)],
              req_params = [(''limit'', case None of None \<Rightarrow> 500 | Some l \<Rightarrow> l)]\<rparr>]"
    by blast
  with h show ?thesis by (simp add: example_world_def example_config_def)
qed

subsection \<open>Memoised results\<close>

text \<open>
  C7. After a call that had to fetch (at time \<open>t1\<close>) and returned a result, a second call
  with the same arguments at a time before \<open>t1 + 600\<close> returns the same result and sends no
  request, whatever the network would answer now; after \<^verbatim>\<open>st.cache_data.clear()\<close> the next
  call sends a request again, and the refresh button does exactly that clearing. Time is the
  explicit clock of the model, in seconds; the script always omits \<^verbatim>\<open>limit\<close>, so its calls
  differ in the feed key only. The first call has to return: a call that raises has no result
  and stores nothing (\<open>miss_raises\<close> above), so the next call fetches again.
\<close>

theorem memoized_for_ttl:
  assumes miss: "cache_lookup t1 w (feed_key, limit) = None"
    and r1: "r1 = get_feed_data cfg net1 t1 feed_key limit w"
    and within: "t2 < t1 + 600"
    and r2: "r2 = get_feed_data cfg net2 t2 feed_key limit (snd r1)"
    and r3: "r3 = get_feed_data cfg net3 t3 feed_key limit (cache_clear (snd r2))"
  shows "(fst r1 = Inr d \<longrightarrow> fst r2 = fst r1 \<and> w_sent (snd r2) = w_sent (snd r1))
    \<and> w_sent (snd r3) = w_sent (snd r2) @ [request_for cfg feed_key (case limit of None \<Rightarrow> LIMIT | Some l \<Rightarrow> l)]
    \<and> snd (create_dashboard cfg net3 t3 True (snd r2)) = cache_clear (snd r2)"
proof -
  have memo: "fst r1 = Inr d \<longrightarrow> fst r2 = fst r1 \<and> w_sent (snd r2) = w_sent (snd r1)"
  proof
    assume ret: "fst r1 = Inr d"
    with r1 have "fst (get_feed_data cfg net1 t1 feed_key limit w) = Inr d" by simp
    from miss_stores [OF miss this] r1
    obtain ent where ent: "w_cache (snd r1) (feed_key, limit) = Some ent"
      "cached_value ent = d" "stored_at ent = t1"
      by auto
    from ent within have hit: "cache_lookup t2 (snd r1) (feed_key, limit) = Some ent"
      by (simp add: cache_lookup_def ttl_def)
    from hit_returns_cached [OF hit, of cfg net2] r2 ent(2)
    have "r2 = (Inr d, (snd r1)\<lparr>w_page := w_page (snd r1) @ cached_msgs ent\<rparr>)" by simp
    with ret show "fst r2 = fst r1 \<and> w_sent (snd r2) = w_sent (snd r1)" by simp
  qed
  have cleared: "cache_lookup t3 (cache_clear (snd r2)) (feed_key, limit) = None"
    by (simp add: cache_lookup_def cache_clear_def)
  from miss_runs_body [OF cleared, of cfg net3] r3
  have "w_sent (snd r3) = w_sent (cache_clear (snd r2))
          @ [request_for cfg feed_key (case limit of None \<Rightarrow> LIMIT | Some l \<Rightarrow> l)]"
    by simp
  then have s3: "w_sent (snd r3) = w_sent (snd r2)
          @ [request_for cfg feed_key (case limit of None \<Rightarrow> LIMIT | Some l \<Rightarrow> l)]"
    by (simp add: cache_clear_def)
  have btn: "snd (create_dashboard cfg net3 t3 True (snd r2)) = cache_clear (snd r2)"
    by (simp add: create_dashboard_def)
  from memo s3 btn show ?thesis by (intro conjI)
qed

theorem memoized_for_ttl_witness:
  "cache_lookup 0 example_world (''temperature'', None) = None
   \<and> (599 :: real) < 0 + 600
   \<and> fst (get_feed_data example_config (net_reply 200 ''OK'' (Inr example_data)) 0
                ''temperature'' None example_world)
     = Inr example_data
   \<and> fst (get_feed_data example_config net_down 599 ''temperature'' None
        (snd (get_feed_data example_config (net_reply 200 ''OK'' (Inr example_data)) 0
                ''temperature'' None example_world)))
     = Inr example_data
   \<and> w_sent (snd (get_feed_data example_config net_down 599 ''temperature'' None
        (snd (get_feed_data example_config (net_reply 200 ''OK'' (Inr example_data)) 0
                ''temperature'' None example_world))))
     = [request_for example_config ''temperature'' 500]"
proof -
  have miss: "cache_lookup 0 example_world (''temperature'', None) = None"
    by (simp add: cache_lookup_def example_world_def)
  have within: "(599 :: real) < 0 + 600" by simp
  have sent: "w_sent (snd (get_feed_data example_config (net_reply 200 ''OK'' (Inr example_data)) 0
                ''temperature'' None example_world))
     = [request_for example_config ''temperature'' 500]"
    using miss_runs_body [OF miss, of example_config "net_reply 200 ''OK'' (Inr example_data)"]
    by (simp add: example_world_def LIMIT_def)
  from memoized_for_ttl [OF miss refl within refl refl, where d = example_data]
  have "fst (get_feed_data example_config (net_reply 200 ''OK'' (Inr example_data)) 0
                ''temperature'' None example_world) = Inr example_data
     \<longrightarrow>
       fst (get_feed_data example_config net_down 599 ''temperature'' None
        (snd (get_feed_data example_config (net_reply 200 ''OK'' (Inr example_data)) 0
                ''temperature'' None example_world)))
     = fst (get_feed_data example_config (net_reply 200 ''OK'' (Inr example_data)) 0
                ''temperature'' None example_world)
     \<and> w_sent (snd (get_feed_data example_config net_down 599 ''temperature'' None
        (snd (get_feed_data example_config (net_reply 200 ''OK'' (Inr example_data)) 0
                ''temperature'' None example_world))))
     = w_sent (snd (get_feed_data example_config (net_reply 200 ''OK'' (Inr example_data)) 0
                ''temperature'' None example_world))"
    by blast
  with miss within sent first_fetch_example show ?thesis by simp
qed

subsection \<open>One failed fetch\<close>

text \<open>
  C1 as stated: when one fetch fails, the pipeline does not crash and the other feed is still
  normalised and rendered. It fails on two inputs. On the network that serves humidity only,
  the temperature fetch returns \<^verbatim>\<open>None\<close>, the humidity fetch returns a record that
  \<^verbatim>\<open>process_data\<close> would normalise, and the run ends at the \<^verbatim>\<open>return\<close> of line 84 with nothing
  normalised or rendered. On the network that refuses the temperature feed and answers the
  humidity feed with a body nested too deeply, the temperature fetch returns \<^verbatim>\<open>None\<close> and
  the humidity fetch raises \<^verbatim>\<open>RecursionError\<close>, which nothing catches: the run crashes.
\<close>

theorem sibling_not_processed_counterexample:
  "fst (get_feed_data example_config net_humidity_only 0 TEMP_FEED_KEY None example_world) = Inr JNull
   \<and> fst (get_feed_data example_config net_humidity_only 0 HUMID_FEED_KEY None
          (snd (get_feed_data example_config net_humidity_only 0 TEMP_FEED_KEY None example_world)))
     = Inr (JArr [feed_record ''2024-01-01T00:00:01Z'' ''61.0''])
   \<and> fst (process_data (JArr [feed_record ''2024-01-01T00:00:01Z'' ''61.0'']) [])
     = Inr [\<lparr>row_index = 0,
              row_time = \<lparr>year = 2024, month = 1, day = 1, hour = 0, minute = 0, second = 1,
                           microsecond = 0, tzinfo = Some 0\<rparr>,
              row_value = FNum 61\<rparr>]
   \<and> fst (create_dashboard example_config net_humidity_only 0 False example_world) = Inr FetchFailed
   \<and> fst (get_feed_data example_config net_humidity_too_deep 0 TEMP_FEED_KEY None example_world) = Inr JNull
   \<and> fst (create_dashboard example_config net_humidity_too_deep 0 False example_world) = Inl RecursionError"
proof (intro conjI)
  show 1: "fst (get_feed_data example_config net_humidity_only 0 TEMP_FEED_KEY None example_world) = Inr JNull"
    by (simp add: temperature_fetch_fails)
  show 2: "fst (get_feed_data example_config net_humidity_only 0 HUMID_FEED_KEY None
          (snd (get_feed_data example_config net_humidity_only 0 TEMP_FEED_KEY None example_world)))
     = Inr (JArr [feed_record ''2024-01-01T00:00:01Z'' ''61.0''])"
    by (rule humidity_fetch_succeeds)
  show "fst (process_data (JArr [feed_record ''2024-01-01T00:00:01Z'' ''61.0'']) [])
     = Inr [\<lparr>row_index = 0,
              row_time = \<lparr>year = 2024, month = 1, day = 1, hour = 0, minute = 0, second = 1,
                           microsecond = 0, tzinfo = Some 0\<rparr>,
              row_value = FNum 61\<rparr>]"
    by code_simp
  obtain w1 where t:
    "get_feed_data example_config net_humidity_only 0 TEMP_FEED_KEY None example_world = (Inr JNull, w1)"
    using 1 by (cases "get_feed_data example_config net_humidity_only 0 TEMP_FEED_KEY None example_world") simp
  with 2 obtain w2 where h:
    "get_feed_data example_config net_humidity_only 0 HUMID_FEED_KEY None w1
       = (Inr (JArr [feed_record ''2024-01-01T00:00:01Z'' ''61.0'']), w2)"
    by (cases "get_feed_data example_config net_humidity_only 0 HUMID_FEED_KEY None w1") simp
  from t h show "fst (create_dashboard example_config net_humidity_only 0 False example_world) = Inr FetchFailed"
    by (simp add: create_dashboard_def)
  show "fst (get_feed_data example_config net_humidity_too_deep 0 TEMP_FEED_KEY None example_world) = Inr JNull"
    by (simp add: temperature_refused)
  show "fst (create_dashboard example_config net_humidity_too_deep 0 False example_world) = Inl RecursionError"
    by (simp add: create_dashboard_def temperature_refused)
       (simp add: get_feed_data_def cache_lookup_def get_feed_data_body_def
          try_block_def net_humidity_too_deep_def net_reply_def request_for_def example_config_def
          HUMID_FEED_KEY_def LIMIT_def raise_for_status_def response_json_def Let_def)
qed

text \<open>
  C1, amended: when both fetches return and either of them returns \<^verbatim>\<open>None\<close>, the run does not
  crash; after the two fetches it shows
  \<^verbatim>\<open>Unable to fetch data from Adafruit IO. Check your credentials or network.\<close>
  and returns, without normalising or rendering either feed.
\<close>

theorem one_failed_fetch_stops_dashboard:
  assumes t: "fst (get_feed_data cfg net now TEMP_FEED_KEY None w) = Inr temp_data_raw"
    and h: "fst (get_feed_data cfg net now HUMID_FEED_KEY None
                  (snd (get_feed_data cfg net now TEMP_FEED_KEY None w))) = Inr humid_data_raw"
    and failed: "temp_data_raw = JNull \<or> humid_data_raw = JNull"
  shows "create_dashboard cfg net now False w
           = (Inr FetchFailed,
              show_msg (StError ''Unable to fetch data from Adafruit IO. Check your credentials or network.'')
                (snd (get_feed_data cfg net now HUMID_FEED_KEY None
                        (snd (get_feed_data cfg net now TEMP_FEED_KEY None w)))))"
proof -
  obtain w1 where t': "get_feed_data cfg net now TEMP_FEED_KEY None w = (Inr temp_data_raw, w1)"
    using t by (cases "get_feed_data cfg net now TEMP_FEED_KEY None w") simp
  with h obtain w2 where h': "get_feed_data cfg net now HUMID_FEED_KEY None w1 = (Inr humid_data_raw, w2)"
    by (cases "get_feed_data cfg net now HUMID_FEED_KEY None w1") simp
  from failed t' h' show ?thesis
    by (simp add: create_dashboard_def fetch_failed_text_def)
qed

theorem one_failed_fetch_stops_dashboard_witness:
  "fst (get_feed_data example_config net_humidity_only 0 TEMP_FEED_KEY None example_world) = Inr JNull
   \<and> fst (get_feed_data example_config net_humidity_only 0 HUMID_FEED_KEY None
          (snd (get_feed_data example_config net_humidity_only 0 TEMP_FEED_KEY None example_world)))
     = Inr (JArr [feed_record ''2024-01-01T00:00:01Z'' ''61.0''])
   \<and> fst (create_dashboard example_config net_humidity_only 0 False example_world) = Inr FetchFailed
   \<and> last (w_page (snd (create_dashboard example_config net_humidity_only 0 False example_world)))
       = StError ''Unable to fetch data from Adafruit IO. Check your credentials or network.''"
proof -
  have 1: "fst (get_feed_data example_config net_humidity_only 0 TEMP_FEED_KEY None example_world) = Inr JNull"
    by (simp add: temperature_fetch_fails)
  have 2: "fst (get_feed_data example_config net_humidity_only 0 HUMID_FEED_KEY None
          (snd (get_feed_data example_config net_humidity_only 0 TEMP_FEED_KEY None example_world)))
     = Inr (JArr [feed_record ''2024-01-01T00:00:01Z'' ''61.0''])"
    by (rule humidity_fetch_succeeds)
  have 3: "JNull = JNull \<or> JArr [feed_record ''2024-01-01T00:00:01Z'' ''61.0''] = JNull"
    by simp
  from one_failed_fetch_stops_dashboard [OF 1 2 3] 1 2 show ?thesis
    by (simp add: show_msg_def)
qed

end
